theory Spec2Isabelle
  imports Complex_Main "HOL-Library.Multiset" "HOL-Library.Product_Lexorder"
begin

section \<open>Values that reach the store\<close>

text \<open>
  The handlers of \<^verbatim>\<open>server.js\<close> take \<^verbatim>\<open>id\<close> from the route and the other fields
  from the JSON body, and pass them untouched as query parameters. The driver sends
  \<^verbatim>\<open>null\<close> and \<^verbatim>\<open>undefined\<close> as SQL NULL and everything else as text; the store
  then runs the input function of the column's type on the text. A parameter is
  therefore one of three things.
\<close>

datatype 'a param =
    Absent       \<comment> \<open>the field is missing or null: SQL NULL\<close>
  | Malformed    \<comment> \<open>a text the input function of the column type rejects\<close>
  | Given 'a     \<comment> \<open>a text the input function accepts, as the value it denotes\<close>

text \<open>
  The route parameter \<^verbatim>\<open>:id\<close> is always a text, never NULL. \<open>IntId i\<close> is a text
  that the 32-bit integer input function reads as \<open>i\<close>.
\<close>

datatype route_id = NotAnInt | IntId int

type_synonym date = "nat \<times> nat \<times> nat"  \<comment> \<open>year, month, day; ordered lexicographically\<close>
type_synonym timestamp = nat
type_synonym cents = int  \<comment> \<open>a DECIMAL(p,2) value, counted in hundredths\<close>

datatype dberror =
    InvalidText | NumericOverflow | NotNullViolation | ForeignKeyViolation
  | UniqueViolation | StringTooLong | SequenceExhausted

text \<open>
  \<^verbatim>\<open>res.json(x)\<close> answers with status 200 and body \<open>x\<close>; every \<^verbatim>\<open>catch\<close> block answers
  \<^verbatim>\<open>res.status(500).json({ error: err.message })\<close>. The handlers that read the body
  destructure \<^verbatim>\<open>req.body\<close> before their \<^verbatim>\<open>try\<close> block: when no body was parsed and
  \<^verbatim>\<open>req.body\<close> is undefined, that line throws, no statement is sent, and what the client
  gets is left to the framework (\<open>Thrown\<close>).
\<close>

datatype 'a response = Json 'a | Failure nat dberror | Thrown

subsection \<open>Column types\<close>

text \<open>
  A numeric value is rounded to the scale of its column, ties away from zero, and
  rejected when it needs more digits than the precision allows. The special numeric
  value NaN is not modelled.
\<close>

definition round_half_away :: "rat \<Rightarrow> int" where
  "round_half_away x = (if 0 \<le> x then \<lfloor>x + 1 / 2\<rfloor> else - \<lfloor>1 / 2 - x\<rfloor>)"

definition to_cents :: "rat \<Rightarrow> cents" where
  "to_cents r = round_half_away (100 * r)"

definition of_cents :: "cents \<Rightarrow> rat" where
  "of_cents c = of_int c / 100"

definition decimal :: "nat \<Rightarrow> rat \<Rightarrow> dberror + cents" where
  "decimal p r = (let c = to_cents r in if \<bar>c\<bar> < 10 ^ p then Inr c else Inl NumericOverflow)"

fun decimal_col :: "nat \<Rightarrow> rat param \<Rightarrow> dberror + cents option" where
  "decimal_col p Absent = Inr None"
| "decimal_col p Malformed = Inl InvalidText"
| "decimal_col p (Given r) = (case decimal p r of Inl e \<Rightarrow> Inl e | Inr c \<Rightarrow> Inr (Some c))"

fun coalesce0 :: "cents option \<Rightarrow> cents" where
  "coalesce0 None = 0"
| "coalesce0 (Some c) = c"

fun value_of :: "'a param \<Rightarrow> 'a option" where
  "value_of (Given x) = Some x"
| "value_of _ = None"

section \<open>The tables\<close>

text \<open>
  The columns of \<^verbatim>\<open>initDB\<close>. The \<^verbatim>\<open>id\<close> column of \<^verbatim>\<open>workers\<close> and \<^verbatim>\<open>vendors\<close>
  is the key of the map that holds the table. The payment tables are lists in insertion
  order; \<open>p_payee_id\<close> is the column \<^verbatim>\<open>worker_id\<close> of \<^verbatim>\<open>worker_payments\<close> and
  \<^verbatim>\<open>vendor_id\<close> of \<^verbatim>\<open>vendor_payments\<close>, which may be NULL.
\<close>

record worker =
  w_name :: string
  w_role :: "string option"
  w_hourly_rate :: "cents option"
  w_contact :: "string option"
  w_total_paid :: "cents option"
  w_last_payment_date :: "date option"
  w_created_at :: timestamp

record vendor =
  v_name :: string
  v_category :: "string option"
  v_contact :: "string option"
  v_rating :: "int option"
  v_total_paid :: "cents option"
  v_last_payment_date :: "date option"
  v_created_at :: timestamp

record payment =
  p_id :: int
  p_payee_id :: "int option"
  p_amount :: cents
  p_payment_date :: date
  p_description :: "string option"
  p_created_at :: timestamp

record project =
  pr_name :: string
  pr_location :: "string option"
  pr_units :: "int option"
  pr_status :: "string option"
  pr_budget :: "cents option"
  pr_spent :: "cents option"
  pr_start_date :: "date option"
  pr_progress_percent :: "int option"
  pr_created_at :: timestamp

record item =
  i_name :: string
  i_category :: "string option"
  i_quantity :: "int option"
  i_unit_price :: "cents option"
  i_min_stock :: "int option"
  i_created_at :: timestamp

record tables =
  projects :: "int \<rightharpoonup> project"
  workers :: "int \<rightharpoonup> worker"
  worker_payments :: "payment list"
  vendors :: "int \<rightharpoonup> vendor"
  vendor_payments :: "payment list"
  inventory :: "int \<rightharpoonup> item"

datatype table = Projects | Workers | WorkerPayments | Vendors | VendorPayments | Inventory

datatype stmt = BEGIN | COMMIT | ROLLBACK | INSERT table | UPDATE table | DELETE table | SELECT table

text \<open>
  The store as one request sees it: the tables, the last value of each SERIAL
  sequence (a sequence is not rolled back), the tables as they were at \<^verbatim>\<open>BEGIN\<close> while
  a transaction is open, and the statements issued so far, oldest first. The
  statements of all requests are served one after the other by this one session, as
  the pool does with its idle client while no two statements are in flight at once;
  statements in flight at the same time on several pool clients are outside the model.
  The store is reachable: a statement fails only for a reason of its own (a text it
  cannot read, a constraint, an overflow).
\<close>

record store =
  tabs :: tables
  seqs :: "table \<Rightarrow> int"
  txn :: "tables option"
  issued :: "stmt list"

definition send :: "stmt \<Rightarrow> store \<Rightarrow> store" where
  "send q s = s\<lparr>issued := issued s @ [q]\<rparr>"

definition query_begin :: "store \<Rightarrow> store" where
  "query_begin s =
     (let s1 = send BEGIN s
      in case txn s1 of None \<Rightarrow> s1\<lparr>txn := Some (tabs s1)\<rparr> | Some t \<Rightarrow> s1)"

definition query_commit :: "store \<Rightarrow> store" where
  "query_commit s = (send COMMIT s)\<lparr>txn := None\<rparr>"

definition query_rollback :: "store \<Rightarrow> store" where
  "query_rollback s =
     (let s1 = send ROLLBACK s
      in case txn s1 of None \<Rightarrow> s1 | Some t \<Rightarrow> s1\<lparr>tabs := t, txn := None\<rparr>)"

text \<open>
  \<^verbatim>\<open>nextval\<close> of a SERIAL column: the sequence is an integer sequence and fails at
  its maximum.
\<close>

definition nextval :: "table \<Rightarrow> store \<Rightarrow> (dberror + int) \<times> store" where
  "nextval t s =
     (if seqs s t \<ge> 2147483647 then (Inl SequenceExhausted, s)
      else (Inr (seqs s t + 1), s\<lparr>seqs := (seqs s)(t := seqs s t + 1)\<rparr>))"

section \<open>Recording a payment\<close>

text \<open>
  \<^verbatim>\<open>INSERT INTO worker_payments (worker_id, amount, payment_date, description) VALUES ($1, $2, $3, $4)\<close>
  (and the same statement on \<^verbatim>\<open>vendor_payments\<close>), with \<^verbatim>\<open>amount DECIMAL(10,2) NOT NULL\<close>,
  \<^verbatim>\<open>payment_date DATE NOT NULL\<close> and \<^verbatim>\<open>created_at\<close> defaulting to the current timestamp.
  The store first reads the parameters and casts them to the types of their columns;
  only then does it run the statement, which takes the next id, checks the
  \<^verbatim>\<open>NOT NULL\<close> columns, the key and at last the foreign key. \<open>payment_row\<close> is the row
  of the cast values.
\<close>

definition payment_row ::
  "int \<Rightarrow> int \<Rightarrow> cents option \<Rightarrow> date option \<Rightarrow> string option \<Rightarrow> timestamp
     \<Rightarrow> dberror + payment" where
  "payment_row new_id payee amount pdate descr now =
     (case amount of
        None \<Rightarrow> Inl NotNullViolation
      | Some c \<Rightarrow>
          (case pdate of
             None \<Rightarrow> Inl NotNullViolation
           | Some d \<Rightarrow>
               Inr \<lparr>p_id = new_id, p_payee_id = Some payee, p_amount = c, p_payment_date = d,
                     p_description = descr, p_created_at = now\<rparr>))"

text \<open>
  The new total of \<^verbatim>\<open>total_paid = COALESCE(total_paid, 0) + $1\<close> in a
  \<^verbatim>\<open>DECIMAL(15,2)\<close> column: the parameter is added as it was sent and the sum is
  rounded on assignment.
\<close>

fun add_paid :: "cents option \<Rightarrow> rat param \<Rightarrow> dberror + cents option" where
  "add_paid t Absent = Inr None"
| "add_paid t Malformed = Inl InvalidText"
| "add_paid t (Given r) =
     (case decimal 15 (of_cents (coalesce0 t) + r) of Inl e \<Rightarrow> Inl e | Inr c \<Rightarrow> Inr (Some c))"

text \<open>
  A payment handler awaits one \<^verbatim>\<open>pool.query\<close> after the other. \<open>progress\<close> says where
  a request stands between two of them: before \<^verbatim>\<open>BEGIN\<close>, after \<^verbatim>\<open>BEGIN\<close>, after the
  \<^verbatim>\<open>INSERT\<close> with the row it returned, after the \<^verbatim>\<open>UPDATE\<close>, in the \<^verbatim>\<open>catch\<close> block
  with the error, or answered. Nothing ties the statements of one request to one pool
  client, so between any two of them the store may serve a statement of another
  request.
\<close>

datatype progress =
    Start | Begun | Inserted payment | Updated payment | Caught dberror
  | Answered "payment response"

fun awaits_left :: "progress \<Rightarrow> nat" where
  "awaits_left Start = 4"
| "awaits_left Begun = 3"
| "awaits_left (Inserted row) = 2"
| "awaits_left (Updated row) = 1"
| "awaits_left (Caught e) = 1"
| "awaits_left (Answered r) = 0"

type_synonym payment_body = "rat param \<times> date param \<times> string option"

subsection \<open>Workers\<close>

definition insert_worker_payment ::
  "route_id \<Rightarrow> rat param \<Rightarrow> date param \<Rightarrow> string option \<Rightarrow> timestamp \<Rightarrow> store
     \<Rightarrow> (dberror + payment) \<times> store" where
  "insert_worker_payment rid amount pdate descr now s0 =
     (let s = send (INSERT WorkerPayments) s0 in
      case rid of
        NotAnInt \<Rightarrow> (Inl InvalidText, s)
      | IntId wid \<Rightarrow>
          if amount = Malformed \<or> pdate = Malformed then (Inl InvalidText, s)
          else
            (case decimal_col 10 amount of
               Inl e \<Rightarrow> (Inl e, s)
             | Inr a \<Rightarrow>
                 (case nextval WorkerPayments s of
                    (Inl e, s1) \<Rightarrow> (Inl e, s1)
                  | (Inr new_id, s1) \<Rightarrow>
                      (case payment_row new_id wid a (value_of pdate) descr now of
                         Inl e \<Rightarrow> (Inl e, s1)
                       | Inr row \<Rightarrow>
                           if new_id \<in> p_id ` set (worker_payments (tabs s1))
                           then (Inl UniqueViolation, s1)
                           else if workers (tabs s1) wid = None
                           then (Inl ForeignKeyViolation, s1)
                           else (Inr row,
                                 s1\<lparr>tabs := (tabs s1)\<lparr>worker_payments :=
                                               worker_payments (tabs s1) @ [row]\<rparr>\<rparr>)))))"

text \<open>
  \<^verbatim>\<open>UPDATE workers SET total_paid = COALESCE(total_paid, 0) + $1, last_payment_date = $2 WHERE id = $3\<close>.
  The result is the number of rows updated; no matching row is not an error.
\<close>

definition update_worker_paid ::
  "rat param \<Rightarrow> date param \<Rightarrow> route_id \<Rightarrow> store \<Rightarrow> (dberror + nat) \<times> store" where
  "update_worker_paid amount pdate rid s0 =
     (let s = send (UPDATE Workers) s0 in
      if amount = Malformed \<or> pdate = Malformed then (Inl InvalidText, s)
      else
        (case rid of
           NotAnInt \<Rightarrow> (Inl InvalidText, s)
         | IntId wid \<Rightarrow>
             (case workers (tabs s) wid of
                None \<Rightarrow> (Inr 0, s)
              | Some w \<Rightarrow>
                  (case add_paid (w_total_paid w) amount of
                     Inl e \<Rightarrow> (Inl e, s)
                   | Inr t \<Rightarrow>
                       (Inr 1,
                        s\<lparr>tabs := (tabs s)\<lparr>workers := (workers (tabs s))
                             (wid \<mapsto> w\<lparr>w_total_paid := t,
                                        w_last_payment_date := value_of pdate\<rparr>)\<rparr>\<rparr>)))))"

text \<open>
  The body of \<^verbatim>\<open>app.post('/api/workers/:id/payments', ...)\<close> from one \<^verbatim>\<open>await\<close> to the
  next.
\<close>

fun worker_payment_step ::
  "route_id \<Rightarrow> rat param \<Rightarrow> date param \<Rightarrow> string option \<Rightarrow> timestamp \<Rightarrow> progress \<Rightarrow> store
     \<Rightarrow> progress \<times> store" where
  "worker_payment_step rid amount pdate descr now Start s = (Begun, query_begin s)"
| "worker_payment_step rid amount pdate descr now Begun s =
     (case insert_worker_payment rid amount pdate descr now s of
        (Inl e, s') \<Rightarrow> (Caught e, s')
      | (Inr row, s') \<Rightarrow> (Inserted row, s'))"
| "worker_payment_step rid amount pdate descr now (Inserted row) s =
     (case update_worker_paid amount pdate rid s of
        (Inl e, s') \<Rightarrow> (Caught e, s')
      | (Inr n, s') \<Rightarrow> (Updated row, s'))"
| "worker_payment_step rid amount pdate descr now (Updated row) s =
     (Answered (Json row), query_commit s)"
| "worker_payment_step rid amount pdate descr now (Caught e) s =
     (Answered (Failure 500 e), query_rollback s)"
| "worker_payment_step rid amount pdate descr now (Answered r) s = (Answered r, s)"

text \<open>The request run to its answer with no statement of another request in between.\<close>

function run_worker_payment ::
  "route_id \<Rightarrow> rat param \<Rightarrow> date param \<Rightarrow> string option \<Rightarrow> timestamp \<Rightarrow> progress \<Rightarrow> store
     \<Rightarrow> payment response \<times> store" where
  "run_worker_payment rid amount pdate descr now p s =
     (case p of
        Answered r \<Rightarrow> (r, s)
      | _ \<Rightarrow>
          run_worker_payment rid amount pdate descr now
            (fst (worker_payment_step rid amount pdate descr now p s))
            (snd (worker_payment_step rid amount pdate descr now p s)))"
  by pat_completeness auto
termination
  by (relation "measure (\<lambda>(rid, amount, pdate, descr, now, p, s). awaits_left p)")
     (auto split: prod.splits sum.splits)

text \<open>\<^verbatim>\<open>app.post('/api/workers/:id/payments', ...)\<close>, when no other request overlaps.\<close>

definition post_worker_payment ::
  "route_id \<Rightarrow> payment_body option \<Rightarrow> timestamp \<Rightarrow> store \<Rightarrow> payment response \<times> store" where
  "post_worker_payment rid body now s =
     (case body of
        None \<Rightarrow> (Thrown, s)
      | Some (amount, pdate, descr) \<Rightarrow> run_worker_payment rid amount pdate descr now Start s)"

subsection \<open>Vendors\<close>

definition insert_vendor_payment ::
  "route_id \<Rightarrow> rat param \<Rightarrow> date param \<Rightarrow> string option \<Rightarrow> timestamp \<Rightarrow> store
     \<Rightarrow> (dberror + payment) \<times> store" where
  "insert_vendor_payment rid amount pdate descr now s0 =
     (let s = send (INSERT VendorPayments) s0 in
      case rid of
        NotAnInt \<Rightarrow> (Inl InvalidText, s)
      | IntId vid \<Rightarrow>
          if amount = Malformed \<or> pdate = Malformed then (Inl InvalidText, s)
          else
            (case decimal_col 10 amount of
               Inl e \<Rightarrow> (Inl e, s)
             | Inr a \<Rightarrow>
                 (case nextval VendorPayments s of
                    (Inl e, s1) \<Rightarrow> (Inl e, s1)
                  | (Inr new_id, s1) \<Rightarrow>
                      (case payment_row new_id vid a (value_of pdate) descr now of
                         Inl e \<Rightarrow> (Inl e, s1)
                       | Inr row \<Rightarrow>
                           if new_id \<in> p_id ` set (vendor_payments (tabs s1))
                           then (Inl UniqueViolation, s1)
                           else if vendors (tabs s1) vid = None
                           then (Inl ForeignKeyViolation, s1)
                           else (Inr row,
                                 s1\<lparr>tabs := (tabs s1)\<lparr>vendor_payments :=
                                               vendor_payments (tabs s1) @ [row]\<rparr>\<rparr>)))))"

definition update_vendor_paid ::
  "rat param \<Rightarrow> date param \<Rightarrow> route_id \<Rightarrow> store \<Rightarrow> (dberror + nat) \<times> store" where
  "update_vendor_paid amount pdate rid s0 =
     (let s = send (UPDATE Vendors) s0 in
      if amount = Malformed \<or> pdate = Malformed then (Inl InvalidText, s)
      else
        (case rid of
           NotAnInt \<Rightarrow> (Inl InvalidText, s)
         | IntId vid \<Rightarrow>
             (case vendors (tabs s) vid of
                None \<Rightarrow> (Inr 0, s)
              | Some v \<Rightarrow>
                  (case add_paid (v_total_paid v) amount of
                     Inl e \<Rightarrow> (Inl e, s)
                   | Inr t \<Rightarrow>
                       (Inr 1,
                        s\<lparr>tabs := (tabs s)\<lparr>vendors := (vendors (tabs s))
                             (vid \<mapsto> v\<lparr>v_total_paid := t,
                                        v_last_payment_date := value_of pdate\<rparr>)\<rparr>\<rparr>)))))"

text \<open>
  The body of \<^verbatim>\<open>app.post('/api/vendors/:id/payments', ...)\<close> from one \<^verbatim>\<open>await\<close> to the
  next.
\<close>

fun vendor_payment_step ::
  "route_id \<Rightarrow> rat param \<Rightarrow> date param \<Rightarrow> string option \<Rightarrow> timestamp \<Rightarrow> progress \<Rightarrow> store
     \<Rightarrow> progress \<times> store" where
  "vendor_payment_step rid amount pdate descr now Start s = (Begun, query_begin s)"
| "vendor_payment_step rid amount pdate descr now Begun s =
     (case insert_vendor_payment rid amount pdate descr now s of
        (Inl e, s') \<Rightarrow> (Caught e, s')
      | (Inr row, s') \<Rightarrow> (Inserted row, s'))"
| "vendor_payment_step rid amount pdate descr now (Inserted row) s =
     (case update_vendor_paid amount pdate rid s of
        (Inl e, s') \<Rightarrow> (Caught e, s')
      | (Inr n, s') \<Rightarrow> (Updated row, s'))"
| "vendor_payment_step rid amount pdate descr now (Updated row) s =
     (Answered (Json row), query_commit s)"
| "vendor_payment_step rid amount pdate descr now (Caught e) s =
     (Answered (Failure 500 e), query_rollback s)"
| "vendor_payment_step rid amount pdate descr now (Answered r) s = (Answered r, s)"

function run_vendor_payment ::
  "route_id \<Rightarrow> rat param \<Rightarrow> date param \<Rightarrow> string option \<Rightarrow> timestamp \<Rightarrow> progress \<Rightarrow> store
     \<Rightarrow> payment response \<times> store" where
  "run_vendor_payment rid amount pdate descr now p s =
     (case p of
        Answered r \<Rightarrow> (r, s)
      | _ \<Rightarrow>
          run_vendor_payment rid amount pdate descr now
            (fst (vendor_payment_step rid amount pdate descr now p s))
            (snd (vendor_payment_step rid amount pdate descr now p s)))"
  by pat_completeness auto
termination
  by (relation "measure (\<lambda>(rid, amount, pdate, descr, now, p, s). awaits_left p)")
     (auto split: prod.splits sum.splits)

text \<open>\<^verbatim>\<open>app.post('/api/vendors/:id/payments', ...)\<close>, when no other request overlaps.\<close>

definition post_vendor_payment ::
  "route_id \<Rightarrow> payment_body option \<Rightarrow> timestamp \<Rightarrow> store \<Rightarrow> payment response \<times> store" where
  "post_vendor_payment rid body now s =
     (case body of
        None \<Rightarrow> (Thrown, s)
      | Some (amount, pdate, descr) \<Rightarrow> run_vendor_payment rid amount pdate descr now Start s)"

section \<open>Listing the payments of a payee\<close>

text \<open>
  \<^verbatim>\<open>SELECT * FROM worker_payments WHERE worker_id = $1 ORDER BY payment_date DESC\<close>.
  The statement names one sort key, so the store may answer with any arrangement of the
  selected rows in which the dates do not increase: \<open>order_by_payment_date_desc rows rs\<close>
  says that \<open>rs\<close> is such an answer for the selected \<open>rows\<close>.
\<close>

definition order_by_payment_date_desc :: "payment list \<Rightarrow> payment list \<Rightarrow> bool" where
  "order_by_payment_date_desc rows rs \<longleftrightarrow>
     mset rs = mset rows \<and> sorted_wrt (\<lambda>a b. p_payment_date b \<le> p_payment_date a) rs"

definition where_payee :: "int \<Rightarrow> payment list \<Rightarrow> payment list" where
  "where_payee i ps = filter (\<lambda>p. p_payee_id p = Some i) ps"

text \<open>
  \<^verbatim>\<open>app.get('/api/workers/:id/payments', ...)\<close> and
  \<^verbatim>\<open>app.get('/api/vendors/:id/payments', ...)\<close>: the third argument is a response the
  handler can give in store \<open>s\<close>. The handlers change no table.
\<close>

fun get_worker_payments :: "route_id \<Rightarrow> store \<Rightarrow> payment list response \<Rightarrow> bool" where
  "get_worker_payments NotAnInt s r = (r = Failure 500 InvalidText)"
| "get_worker_payments (IntId i) s (Json rs) =
     order_by_payment_date_desc (where_payee i (worker_payments (tabs s))) rs"
| "get_worker_payments (IntId i) s (Failure c e) = False"
| "get_worker_payments (IntId i) s Thrown = False"

fun get_vendor_payments :: "route_id \<Rightarrow> store \<Rightarrow> payment list response \<Rightarrow> bool" where
  "get_vendor_payments NotAnInt s r = (r = Failure 500 InvalidText)"
| "get_vendor_payments (IntId i) s (Json rs) =
     order_by_payment_date_desc (where_payee i (vendor_payments (tabs s))) rs"
| "get_vendor_payments (IntId i) s (Failure c e) = False"
| "get_vendor_payments (IntId i) s Thrown = False"

section \<open>Deleting a payee\<close>

text \<open>
  \<^verbatim>\<open>DELETE FROM workers WHERE id=$1\<close>, with
  \<^verbatim>\<open>worker_id INTEGER REFERENCES workers(id) ON DELETE CASCADE\<close> on the payments: the
  payments that reference a deleted row go with it. Deleting no row is not an error.
\<close>

definition delete_worker :: "route_id \<Rightarrow> store \<Rightarrow> string response \<times> store" where
  "delete_worker rid s0 =
     (let s = send (DELETE Workers) s0 in
      case rid of
        NotAnInt \<Rightarrow> (Failure 500 InvalidText, s)
      | IntId wid \<Rightarrow>
          (Json ''Worker deleted successfully'',
           (case workers (tabs s) wid of
              None \<Rightarrow> s
            | Some w \<Rightarrow>
                s\<lparr>tabs := (tabs s)\<lparr>workers := (workers (tabs s))(wid := None),
                     worker_payments :=
                       filter (\<lambda>p. p_payee_id p \<noteq> Some wid) (worker_payments (tabs s))\<rparr>\<rparr>)))"

definition delete_vendor :: "route_id \<Rightarrow> store \<Rightarrow> string response \<times> store" where
  "delete_vendor rid s0 =
     (let s = send (DELETE Vendors) s0 in
      case rid of
        NotAnInt \<Rightarrow> (Failure 500 InvalidText, s)
      | IntId vid \<Rightarrow>
          (Json ''Vendor deleted successfully'',
           (case vendors (tabs s) vid of
              None \<Rightarrow> s
            | Some v \<Rightarrow>
                s\<lparr>tabs := (tabs s)\<lparr>vendors := (vendors (tabs s))(vid := None),
                     vendor_payments :=
                       filter (\<lambda>p. p_payee_id p \<noteq> Some vid) (vendor_payments (tabs s))\<rparr>\<rparr>)))"

section \<open>Both kinds of payee\<close>

text \<open>
  The router sends a request to the handler of its path; \<open>kind\<close> is the part of the
  path that tells workers from vendors.
\<close>

datatype kind = Worker | Vendor

fun recordPayment ::
  "kind \<Rightarrow> route_id \<Rightarrow> payment_body option \<Rightarrow> timestamp \<Rightarrow> store
     \<Rightarrow> payment response \<times> store" where
  "recordPayment Worker = post_worker_payment"
| "recordPayment Vendor = post_vendor_payment"

fun listPayments :: "kind \<Rightarrow> route_id \<Rightarrow> store \<Rightarrow> payment list response \<Rightarrow> bool" where
  "listPayments Worker = get_worker_payments"
| "listPayments Vendor = get_vendor_payments"

fun deletePayee :: "kind \<Rightarrow> route_id \<Rightarrow> store \<Rightarrow> string response \<times> store" where
  "deletePayee Worker = delete_worker"
| "deletePayee Vendor = delete_vendor"

fun ledger :: "kind \<Rightarrow> tables \<Rightarrow> payment list" where
  "ledger Worker t = worker_payments t"
| "ledger Vendor t = vendor_payments t"

fun ledger_table :: "kind \<Rightarrow> table" where
  "ledger_table Worker = WorkerPayments"
| "ledger_table Vendor = VendorPayments"

text \<open>The aggregate columns of the payee \<open>i\<close>, when the row exists.\<close>

fun total_paid :: "kind \<Rightarrow> tables \<Rightarrow> int \<Rightarrow> cents option option" where
  "total_paid Worker t i = map_option w_total_paid (workers t i)"
| "total_paid Vendor t i = map_option v_total_paid (vendors t i)"

fun last_payment_date :: "kind \<Rightarrow> tables \<Rightarrow> int \<Rightarrow> date option option" where
  "last_payment_date Worker t i = map_option w_last_payment_date (workers t i)"
| "last_payment_date Vendor t i = map_option v_last_payment_date (vendors t i)"

definition entries_of :: "kind \<Rightarrow> tables \<Rightarrow> int \<Rightarrow> payment list" where
  "entries_of k t i = where_payee i (ledger k t)"

definition ledger_sum :: "kind \<Rightarrow> tables \<Rightarrow> int \<Rightarrow> cents" where
  "ledger_sum k t i = sum_list (map p_amount (entries_of k t i))"

text \<open>
  The payee exists and its total, NULL read as 0, is the sum of the amounts of its
  ledger entries.
\<close>

definition balanced :: "kind \<Rightarrow> tables \<Rightarrow> int \<Rightarrow> bool" where
  "balanced k t i \<longleftrightarrow>
     (case total_paid k t i of None \<Rightarrow> False | Some tp \<Rightarrow> coalesce0 tp = ledger_sum k t i)"

text \<open>
  A sequence of calls against the payee \<open>i\<close>, each with its amount, date, description
  and clock reading: the store after the last call when every call succeeded.
\<close>

fun record_all ::
  "kind \<Rightarrow> int \<Rightarrow> (rat param \<times> date param \<times> string option \<times> timestamp) list \<Rightarrow> store
     \<Rightarrow> store option" where
  "record_all k i [] s = Some s"
| "record_all k i ((amount, pdate, descr, now) # cs) s =
     (case recordPayment k (IntId i) (Some (amount, pdate, descr)) now s of
        (Json row, s') \<Rightarrow> record_all k i cs s'
      | (Failure c e, s') \<Rightarrow> None
      | (Thrown, s') \<Rightarrow> None)"

text \<open>The conditions on amounts under which the running total stays exact.\<close>

fun nonneg_amount :: "rat param \<Rightarrow> bool" where
  "nonneg_amount (Given r) = (0 \<le> r)"
| "nonneg_amount _ = False"

fun whole_cents :: "rat param \<Rightarrow> bool" where
  "whole_cents (Given r) = (of_cents (to_cents r) = r)"
| "whole_cents _ = False"

text \<open>The id of the request names no row of the payee table.\<close>

fun payee_missing :: "kind \<Rightarrow> tables \<Rightarrow> route_id \<Rightarrow> bool" where
  "payee_missing k t NotAnInt = True"
| "payee_missing k t (IntId i) = (total_paid k t i = None)"

text \<open>A request whose id, amount or date the store cannot read, or whose amount or date is missing.\<close>

definition unreadable_input :: "route_id \<Rightarrow> rat param \<Rightarrow> date param \<Rightarrow> bool" where
  "unreadable_input rid amount pdate \<longleftrightarrow>
     rid = NotAnInt \<or> value_of amount = None \<or> value_of pdate = None"

text \<open>
  What the store needs to take a payment of amount \<open>a\<close>: the amount fits
  \<^verbatim>\<open>DECIMAL(10,2)\<close>, the sequence has a next value and no entry has it yet
  (\<open>row_fits\<close>); and moreover the payee \<open>i\<close> exists and its new total fits
  \<^verbatim>\<open>DECIMAL(15,2)\<close> (\<open>accepted\<close>).
\<close>

definition row_fits :: "kind \<Rightarrow> rat \<Rightarrow> store \<Rightarrow> bool" where
  "row_fits k a s \<longleftrightarrow>
     \<bar>to_cents a\<bar> < 10 ^ 10 \<and>
     seqs s (ledger_table k) < 2147483647 \<and>
     seqs s (ledger_table k) + 1 \<notin> p_id ` set (ledger k (tabs s))"

definition accepted :: "kind \<Rightarrow> int \<Rightarrow> rat \<Rightarrow> store \<Rightarrow> bool" where
  "accepted k i a s \<longleftrightarrow>
     row_fits k a s \<and>
     (case total_paid k (tabs s) i of
        None \<Rightarrow> False
      | Some tp \<Rightarrow> \<bar>to_cents (of_cents (coalesce0 tp) + a)\<bar> < 10 ^ 15)"

subsection \<open>Requests that overlap\<close>

text \<open>
  A payment request with a parsed body, and the requests under way, each with its
  progress. A schedule names, step by step, the request whose next statement the store
  serves.
\<close>

datatype call = Call kind route_id "rat param" "date param" "string option" timestamp

fun payment_step :: "call \<Rightarrow> progress \<Rightarrow> store \<Rightarrow> progress \<times> store" where
  "payment_step (Call Worker rid amount pdate descr now) =
     worker_payment_step rid amount pdate descr now"
| "payment_step (Call Vendor rid amount pdate descr now) =
     vendor_payment_step rid amount pdate descr now"

fun interleave ::
  "nat list \<Rightarrow> (call \<times> progress) list \<Rightarrow> store \<Rightarrow> (call \<times> progress) list \<times> store" where
  "interleave [] rs s = (rs, s)"
| "interleave (i # sched) rs s =
     (if i < length rs
      then (case payment_step (fst (rs ! i)) (snd (rs ! i)) s of
              (p, s') \<Rightarrow> interleave sched (rs[i := (fst (rs ! i), p)]) s')
      else interleave sched rs s)"

subsection \<open>Renaming workers to vendors\<close>

fun swap_table :: "table \<Rightarrow> table" where
  "swap_table Workers = Vendors"
| "swap_table Vendors = Workers"
| "swap_table WorkerPayments = VendorPayments"
| "swap_table VendorPayments = WorkerPayments"
| "swap_table t = t"

fun swap_stmt :: "stmt \<Rightarrow> stmt" where
  "swap_stmt (INSERT t) = INSERT (swap_table t)"
| "swap_stmt (UPDATE t) = UPDATE (swap_table t)"
| "swap_stmt (DELETE t) = DELETE (swap_table t)"
| "swap_stmt (SELECT t) = SELECT (swap_table t)"
| "swap_stmt q = q"

text \<open>What the payment handlers of one kind read and write: the aggregate columns of
  the payee table and the payment table.\<close>

definition payee_part ::
  "kind \<Rightarrow> tables \<Rightarrow> (int \<Rightarrow> (cents option \<times> date option) option) \<times> payment list" where
  "payee_part k t = (\<lambda>i. case (total_paid k t i, last_payment_date k t i) of
                             (Some tp, Some d) \<Rightarrow> Some (tp, d) | _ \<Rightarrow> None,
                     ledger k t)"

text \<open>\<open>renamed sw sv\<close>: the worker side of \<open>sw\<close> is the vendor side of \<open>sv\<close>.\<close>

definition renamed :: "store \<Rightarrow> store \<Rightarrow> bool" where
  "renamed sw sv \<longleftrightarrow>
     payee_part Worker (tabs sw) = payee_part Vendor (tabs sv) \<and>
     seqs sw WorkerPayments = seqs sv VendorPayments \<and>
     map_option (payee_part Worker) (txn sw) = map_option (payee_part Vendor) (txn sv) \<and>
     issued sv = map swap_stmt (issued sw)"

section \<open>The other endpoints\<close>

text \<open>
  Every other handler has the shape
  \<^verbatim>\<open>try { const result = await pool.query(...); res.json(...) } catch (err) { res.status(500)... }\<close>
  with one statement on one table. A statement outside a transaction takes effect at
  once or fails without effect.
\<close>

definition and_then :: "'e + 'a \<Rightarrow> ('a \<Rightarrow> 'e + 'b) \<Rightarrow> 'e + 'b" where
  "and_then x f = (case x of Inl e \<Rightarrow> Inl e | Inr a \<Rightarrow> f a)"

definition not_null :: "'a option \<Rightarrow> dberror + 'a" where
  "not_null x = (case x of None \<Rightarrow> Inl NotNullViolation | Some a \<Rightarrow> Inr a)"

text \<open>\<^verbatim>\<open>VARCHAR(n)\<close>: a longer text is an error unless only spaces are cut off.\<close>

fun varchar :: "nat \<Rightarrow> string option \<Rightarrow> dberror + string option" where
  "varchar n None = Inr None"
| "varchar n (Some x) =
     (if length x \<le> n then Inr (Some x)
      else if \<forall>c \<in> set (drop n x). c = CHR '' '' then Inr (Some (take n x))
      else Inl StringTooLong)"

definition respond :: "(dberror + 'a) \<times> store \<Rightarrow> 'a response \<times> store" where
  "respond q = (case q of (Inl e, s) \<Rightarrow> (Failure 500 e, s) | (Inr a, s) \<Rightarrow> (Json a, s))"

text \<open>
  The three statements on a table with a SERIAL key, for a table read by \<open>get\<close> and
  written by \<open>upd\<close>. \<open>unreadable\<close> says that some parameter is a text its column type
  rejects. \<open>cast\<close> is the outcome of casting the parameters to the column types, which
  the store does before it runs the statement: an error, or what is left to do with the
  cast values once the statement runs, namely to check \<^verbatim>\<open>NOT NULL\<close> and to build
  the new row.
\<close>

definition insert_row ::
  "table \<Rightarrow> (tables \<Rightarrow> int \<rightharpoonup> 'r) \<Rightarrow> (((int \<rightharpoonup> 'r) \<Rightarrow> (int \<rightharpoonup> 'r)) \<Rightarrow> tables \<Rightarrow> tables)
     \<Rightarrow> bool \<Rightarrow> dberror + (dberror + 'r) \<Rightarrow> store \<Rightarrow> (dberror + 'r) \<times> store" where
  "insert_row t get upd unreadable cast s0 =
     (let s = send (INSERT t) s0 in
      if unreadable then (Inl InvalidText, s)
      else
        (case cast of
           Inl e \<Rightarrow> (Inl e, s)
         | Inr row \<Rightarrow>
             (case nextval t s of
                (Inl e, s1) \<Rightarrow> (Inl e, s1)
              | (Inr new_id, s1) \<Rightarrow>
                  (case row of
                     Inl e \<Rightarrow> (Inl e, s1)
                   | Inr r \<Rightarrow>
                       if get (tabs s1) new_id \<noteq> None then (Inl UniqueViolation, s1)
                       else (Inr r, s1\<lparr>tabs := upd (\<lambda>m. m(new_id \<mapsto> r)) (tabs s1)\<rparr>)))))"

definition update_row ::
  "table \<Rightarrow> (tables \<Rightarrow> int \<rightharpoonup> 'r) \<Rightarrow> (((int \<rightharpoonup> 'r) \<Rightarrow> (int \<rightharpoonup> 'r)) \<Rightarrow> tables \<Rightarrow> tables)
     \<Rightarrow> bool \<Rightarrow> route_id \<Rightarrow> dberror + ('r \<Rightarrow> dberror + 'r) \<Rightarrow> store
     \<Rightarrow> (dberror + 'r option) \<times> store" where
  "update_row t get upd unreadable rid cast s0 =
     (let s = send (UPDATE t) s0 in
      if unreadable then (Inl InvalidText, s)
      else
        (case rid of
           NotAnInt \<Rightarrow> (Inl InvalidText, s)
         | IntId i \<Rightarrow>
             (case cast of
                Inl e \<Rightarrow> (Inl e, s)
              | Inr change \<Rightarrow>
                  (case get (tabs s) i of
                     None \<Rightarrow> (Inr None, s)
                   | Some r \<Rightarrow>
                       (case change r of
                          Inl e \<Rightarrow> (Inl e, s)
                        | Inr r' \<Rightarrow>
                            (Inr (Some r'), s\<lparr>tabs := upd (\<lambda>m. m(i \<mapsto> r')) (tabs s)\<rparr>))))))"

definition delete_row ::
  "table \<Rightarrow> (((int \<rightharpoonup> 'r) \<Rightarrow> (int \<rightharpoonup> 'r)) \<Rightarrow> tables \<Rightarrow> tables) \<Rightarrow> string \<Rightarrow> route_id \<Rightarrow> store
     \<Rightarrow> string response \<times> store" where
  "delete_row t upd message rid s0 =
     (let s = send (DELETE t) s0 in
      case rid of
        NotAnInt \<Rightarrow> (Failure 500 InvalidText, s)
      | IntId i \<Rightarrow> (Json message, s\<lparr>tabs := upd (\<lambda>m. m(i := None)) (tabs s)\<rparr>))"

subsection \<open>Projects\<close>

type_synonym project_post_body =
  "string option \<times> rat param \<times> date param \<times> string option \<times> string option"

type_synonym project_put_body =
  "string option \<times> rat param \<times> rat param \<times> date param \<times> string option \<times> int param"

text \<open>\<^verbatim>\<open>INSERT INTO projects (name, budget, start_date, status, location) VALUES ($1, $2, $3, $4, $5)\<close>\<close>

definition project_row ::
  "string option \<Rightarrow> rat param \<Rightarrow> date param \<Rightarrow> string option \<Rightarrow> string option \<Rightarrow> timestamp
     \<Rightarrow> dberror + (dberror + project)" where
  "project_row name budget start_date status location now =
     and_then (varchar 255 name) (\<lambda>n.
     and_then (decimal_col 15 budget) (\<lambda>b.
     and_then (varchar 50 status) (\<lambda>st.
     and_then (varchar 255 location) (\<lambda>l.
       Inr (and_then (not_null n) (\<lambda>n'.
         Inr \<lparr>pr_name = n', pr_location = l, pr_units = None, pr_status = st, pr_budget = b,
               pr_spent = Some 0, pr_start_date = value_of start_date,
               pr_progress_percent = Some 0, pr_created_at = now\<rparr>))))))"

definition post_project :: "project_post_body option \<Rightarrow> timestamp \<Rightarrow> store \<Rightarrow> project response \<times> store" where
  "post_project body now s =
     (case body of
        None \<Rightarrow> (Thrown, s)
      | Some (name, budget, start_date, status, location) \<Rightarrow>
          respond (insert_row Projects projects projects_update
                     (budget = Malformed \<or> start_date = Malformed)
                     (project_row name budget start_date status location now) s))"

text \<open>\<^verbatim>\<open>UPDATE projects SET name=$1, budget=$2, spent=$3, start_date=$4, status=$5, progress_percent=$6 WHERE id=$7\<close>\<close>

definition project_set ::
  "string option \<Rightarrow> rat param \<Rightarrow> rat param \<Rightarrow> date param \<Rightarrow> string option \<Rightarrow> int param
     \<Rightarrow> dberror + (project \<Rightarrow> dberror + project)" where
  "project_set name budget spent start_date status progress =
     and_then (varchar 255 name) (\<lambda>n.
     and_then (decimal_col 15 budget) (\<lambda>b.
     and_then (decimal_col 15 spent) (\<lambda>sp.
     and_then (varchar 50 status) (\<lambda>st.
       Inr (\<lambda>r. and_then (not_null n) (\<lambda>n'.
         Inr (r\<lparr>pr_name := n', pr_budget := b, pr_spent := sp,
                 pr_start_date := value_of start_date, pr_status := st,
                 pr_progress_percent := value_of progress\<rparr>)))))))"

definition put_project ::
  "route_id \<Rightarrow> project_put_body option \<Rightarrow> store \<Rightarrow> project option response \<times> store" where
  "put_project rid body s =
     (case body of
        None \<Rightarrow> (Thrown, s)
      | Some (name, budget, spent, start_date, status, progress) \<Rightarrow>
          respond (update_row Projects projects projects_update
                     (budget = Malformed \<or> spent = Malformed \<or> start_date = Malformed
                        \<or> progress = Malformed)
                     rid (project_set name budget spent start_date status progress) s))"

definition delete_project :: "route_id \<Rightarrow> store \<Rightarrow> string response \<times> store" where
  "delete_project = delete_row Projects projects_update ''Project deleted successfully''"

subsection \<open>Workers and vendors\<close>

type_synonym worker_body = "string option \<times> string option \<times> rat param \<times> string option"

type_synonym vendor_body = "string option \<times> string option \<times> string option \<times> int param"

text \<open>\<^verbatim>\<open>INSERT INTO workers (name, role, hourly_rate, contact) VALUES ($1, $2, $3, $4)\<close>\<close>

definition worker_row ::
  "string option \<Rightarrow> string option \<Rightarrow> rat param \<Rightarrow> string option \<Rightarrow> timestamp
     \<Rightarrow> dberror + (dberror + worker)" where
  "worker_row name role hourly_rate contact now =
     and_then (varchar 255 name) (\<lambda>n.
     and_then (varchar 100 role) (\<lambda>ro.
     and_then (decimal_col 10 hourly_rate) (\<lambda>h.
     and_then (varchar 255 contact) (\<lambda>c.
       Inr (and_then (not_null n) (\<lambda>n'.
         Inr \<lparr>w_name = n', w_role = ro, w_hourly_rate = h, w_contact = c,
               w_total_paid = Some 0, w_last_payment_date = None, w_created_at = now\<rparr>))))))"

definition post_worker :: "worker_body option \<Rightarrow> timestamp \<Rightarrow> store \<Rightarrow> worker response \<times> store" where
  "post_worker body now s =
     (case body of
        None \<Rightarrow> (Thrown, s)
      | Some (name, role, hourly_rate, contact) \<Rightarrow>
          respond (insert_row Workers workers workers_update (hourly_rate = Malformed)
                     (worker_row name role hourly_rate contact now) s))"

text \<open>\<^verbatim>\<open>UPDATE workers SET name=$1, role=$2, hourly_rate=$3, contact=$4 WHERE id=$5\<close>\<close>

definition worker_set ::
  "string option \<Rightarrow> string option \<Rightarrow> rat param \<Rightarrow> string option
     \<Rightarrow> dberror + (worker \<Rightarrow> dberror + worker)" where
  "worker_set name role hourly_rate contact =
     and_then (varchar 255 name) (\<lambda>n.
     and_then (varchar 100 role) (\<lambda>ro.
     and_then (decimal_col 10 hourly_rate) (\<lambda>h.
     and_then (varchar 255 contact) (\<lambda>c.
       Inr (\<lambda>w. and_then (not_null n) (\<lambda>n'.
         Inr (w\<lparr>w_name := n', w_role := ro, w_hourly_rate := h, w_contact := c\<rparr>)))))))"

definition put_worker ::
  "route_id \<Rightarrow> worker_body option \<Rightarrow> store \<Rightarrow> worker option response \<times> store" where
  "put_worker rid body s =
     (case body of
        None \<Rightarrow> (Thrown, s)
      | Some (name, role, hourly_rate, contact) \<Rightarrow>
          respond (update_row Workers workers workers_update (hourly_rate = Malformed)
                     rid (worker_set name role hourly_rate contact) s))"

text \<open>\<^verbatim>\<open>INSERT INTO vendors (name, category, contact, rating) VALUES ($1, $2, $3, $4)\<close>\<close>

definition vendor_row ::
  "string option \<Rightarrow> string option \<Rightarrow> string option \<Rightarrow> int param \<Rightarrow> timestamp
     \<Rightarrow> dberror + (dberror + vendor)" where
  "vendor_row name category contact rating now =
     and_then (varchar 255 name) (\<lambda>n.
     and_then (varchar 100 category) (\<lambda>ca.
     and_then (varchar 255 contact) (\<lambda>c.
       Inr (and_then (not_null n) (\<lambda>n'.
         Inr \<lparr>v_name = n', v_category = ca, v_contact = c, v_rating = value_of rating,
               v_total_paid = Some 0, v_last_payment_date = None, v_created_at = now\<rparr>)))))"

definition post_vendor :: "vendor_body option \<Rightarrow> timestamp \<Rightarrow> store \<Rightarrow> vendor response \<times> store" where
  "post_vendor body now s =
     (case body of
        None \<Rightarrow> (Thrown, s)
      | Some (name, category, contact, rating) \<Rightarrow>
          respond (insert_row Vendors vendors vendors_update (rating = Malformed)
                     (vendor_row name category contact rating now) s))"

text \<open>\<^verbatim>\<open>UPDATE vendors SET name=$1, category=$2, contact=$3, rating=$4 WHERE id=$5\<close>\<close>

definition vendor_set ::
  "string option \<Rightarrow> string option \<Rightarrow> string option \<Rightarrow> int param
     \<Rightarrow> dberror + (vendor \<Rightarrow> dberror + vendor)" where
  "vendor_set name category contact rating =
     and_then (varchar 255 name) (\<lambda>n.
     and_then (varchar 100 category) (\<lambda>ca.
     and_then (varchar 255 contact) (\<lambda>c.
       Inr (\<lambda>v. and_then (not_null n) (\<lambda>n'.
         Inr (v\<lparr>v_name := n', v_category := ca, v_contact := c,
                 v_rating := value_of rating\<rparr>))))))"

definition put_vendor ::
  "route_id \<Rightarrow> vendor_body option \<Rightarrow> store \<Rightarrow> vendor option response \<times> store" where
  "put_vendor rid body s =
     (case body of
        None \<Rightarrow> (Thrown, s)
      | Some (name, category, contact, rating) \<Rightarrow>
          respond (update_row Vendors vendors vendors_update (rating = Malformed)
                     rid (vendor_set name category contact rating) s))"

subsection \<open>Inventory\<close>

type_synonym item_body =
  "string option \<times> string option \<times> int param \<times> rat param \<times> int param"

text \<open>\<^verbatim>\<open>INSERT INTO inventory (name, category, quantity, unit_price, min_stock) VALUES ($1, $2, $3, $4, $5)\<close>\<close>

definition item_row ::
  "string option \<Rightarrow> string option \<Rightarrow> int param \<Rightarrow> rat param \<Rightarrow> int param \<Rightarrow> timestamp
     \<Rightarrow> dberror + (dberror + item)" where
  "item_row name category quantity unit_price min_stock now =
     and_then (varchar 255 name) (\<lambda>n.
     and_then (varchar 100 category) (\<lambda>ca.
     and_then (decimal_col 10 unit_price) (\<lambda>u.
       Inr (and_then (not_null n) (\<lambda>n'.
         Inr \<lparr>i_name = n', i_category = ca, i_quantity = value_of quantity, i_unit_price = u,
               i_min_stock = value_of min_stock, i_created_at = now\<rparr>)))))"

definition post_inventory :: "item_body option \<Rightarrow> timestamp \<Rightarrow> store \<Rightarrow> item response \<times> store" where
  "post_inventory body now s =
     (case body of
        None \<Rightarrow> (Thrown, s)
      | Some (name, category, quantity, unit_price, min_stock) \<Rightarrow>
          respond (insert_row Inventory inventory inventory_update
                     (quantity = Malformed \<or> unit_price = Malformed \<or> min_stock = Malformed)
                     (item_row name category quantity unit_price min_stock now) s))"

text \<open>\<^verbatim>\<open>UPDATE inventory SET name=$1, category=$2, quantity=$3, unit_price=$4, min_stock=$5 WHERE id=$6\<close>\<close>

definition item_set ::
  "string option \<Rightarrow> string option \<Rightarrow> int param \<Rightarrow> rat param \<Rightarrow> int param
     \<Rightarrow> dberror + (item \<Rightarrow> dberror + item)" where
  "item_set name category quantity unit_price min_stock =
     and_then (varchar 255 name) (\<lambda>n.
     and_then (varchar 100 category) (\<lambda>ca.
     and_then (decimal_col 10 unit_price) (\<lambda>u.
       Inr (\<lambda>r. and_then (not_null n) (\<lambda>n'.
         Inr (r\<lparr>i_name := n', i_category := ca, i_quantity := value_of quantity,
                 i_unit_price := u, i_min_stock := value_of min_stock\<rparr>))))))"

definition put_inventory ::
  "route_id \<Rightarrow> item_body option \<Rightarrow> store \<Rightarrow> item option response \<times> store" where
  "put_inventory rid body s =
     (case body of
        None \<Rightarrow> (Thrown, s)
      | Some (name, category, quantity, unit_price, min_stock) \<Rightarrow>
          respond (update_row Inventory inventory inventory_update
                     (quantity = Malformed \<or> unit_price = Malformed \<or> min_stock = Malformed)
                     rid (item_set name category quantity unit_price min_stock) s))"

definition delete_inventory :: "route_id \<Rightarrow> store \<Rightarrow> string response \<times> store" where
  "delete_inventory = delete_row Inventory inventory_update ''Inventory item deleted successfully''"

section \<open>The whole API\<close>

text \<open>The 22 routes of \<^verbatim>\<open>server.js\<close>; a body is \<open>None\<close> when \<^verbatim>\<open>req.body\<close> is undefined.\<close>

datatype request =
    GetHealth
  | GetProjects
  | PostProject "project_post_body option"
  | PutProject route_id "project_put_body option"
  | DeleteProject route_id
  | GetWorkers
  | PostWorker "worker_body option"
  | PutWorker route_id "worker_body option"
  | DeleteWorker route_id
  | GetWorkerPayments route_id
  | PostWorkerPayment route_id "payment_body option"
  | GetVendors
  | PostVendor "vendor_body option"
  | PutVendor route_id "vendor_body option"
  | DeleteVendor route_id
  | GetVendorPayments route_id
  | PostVendorPayment route_id "payment_body option"
  | GetInventory
  | PostInventory "item_body option"
  | PutInventory route_id "item_body option"
  | DeleteInventory route_id
  | GetAnalytics

text \<open>
  The store after a request that arrives at clock reading \<open>now\<close> and overlaps with no
  other. The read handlers issue \<^verbatim>\<open>SELECT\<close> statements only; \<^verbatim>\<open>/api/analytics\<close>
  issues eight of them.
\<close>

fun handle :: "request \<Rightarrow> timestamp \<Rightarrow> store \<Rightarrow> store" where
  "handle GetHealth now s = s"
| "handle GetProjects now s = send (SELECT Projects) s"
| "handle (PostProject body) now s = snd (post_project body now s)"
| "handle (PutProject rid body) now s = snd (put_project rid body s)"
| "handle (DeleteProject rid) now s = snd (delete_project rid s)"
| "handle GetWorkers now s = send (SELECT Workers) s"
| "handle (PostWorker body) now s = snd (post_worker body now s)"
| "handle (PutWorker rid body) now s = snd (put_worker rid body s)"
| "handle (DeleteWorker rid) now s = snd (delete_worker rid s)"
| "handle (GetWorkerPayments rid) now s = send (SELECT WorkerPayments) s"
| "handle (PostWorkerPayment rid body) now s = snd (post_worker_payment rid body now s)"
| "handle GetVendors now s = send (SELECT Vendors) s"
| "handle (PostVendor body) now s = snd (post_vendor body now s)"
| "handle (PutVendor rid body) now s = snd (put_vendor rid body s)"
| "handle (DeleteVendor rid) now s = snd (delete_vendor rid s)"
| "handle (GetVendorPayments rid) now s = send (SELECT VendorPayments) s"
| "handle (PostVendorPayment rid body) now s = snd (post_vendor_payment rid body now s)"
| "handle GetInventory now s = send (SELECT Inventory) s"
| "handle (PostInventory body) now s = snd (post_inventory body now s)"
| "handle (PutInventory rid body) now s = snd (put_inventory rid body s)"
| "handle (DeleteInventory rid) now s = snd (delete_inventory rid s)"
| "handle GetAnalytics now s =
     foldl (\<lambda>s' q. send q s') s
       [SELECT Projects, SELECT Workers, SELECT Vendors, SELECT Inventory,
        SELECT Projects, SELECT Projects, SELECT Workers, SELECT Vendors]"

text \<open>How a request can change the payment table of kind \<open>k\<close>.\<close>

definition records_payment :: "kind \<Rightarrow> request \<Rightarrow> bool" where
  "records_payment k q \<longleftrightarrow>
     (case q of
        PostWorkerPayment rid body \<Rightarrow> k = Worker
      | PostVendorPayment rid body \<Rightarrow> k = Vendor
      | _ \<Rightarrow> False)"

definition deletes_payee :: "kind \<Rightarrow> int \<Rightarrow> request \<Rightarrow> bool" where
  "deletes_payee k i q \<longleftrightarrow>
     (case q of
        DeleteWorker rid \<Rightarrow> k = Worker \<and> rid = IntId i
      | DeleteVendor rid \<Rightarrow> k = Vendor \<and> rid = IntId i
      | _ \<Rightarrow> False)"

section \<open>Stores for the examples\<close>

definition ada :: worker where
  "ada = \<lparr>w_name = ''Ada'', w_role = Some ''Mason'', w_hourly_rate = Some 250000,
           w_contact = None, w_total_paid = Some 0, w_last_payment_date = None,
           w_created_at = 0\<rparr>"

definition cement :: vendor where
  "cement = \<lparr>v_name = ''Cement Ltd'', v_category = Some ''Materials'', v_contact = None,
              v_rating = Some 5, v_total_paid = None, v_last_payment_date = None,
              v_created_at = 0\<rparr>"

definition demo_tables :: tables where
  "demo_tables = \<lparr>projects = Map.empty, workers = [1 \<mapsto> ada], worker_payments = [],
                   vendors = [1 \<mapsto> cement], vendor_payments = [], inventory = Map.empty\<rparr>"

definition demo_store :: store where
  "demo_store = \<lparr>tabs = demo_tables, seqs = (\<lambda>t. 0), txn = None, issued = []\<rparr>"

text \<open>A worker whose total is the largest value of its column.\<close>

definition full_store :: store where
  "full_store =
     \<lparr>tabs = demo_tables\<lparr>workers := [1 \<mapsto> ada\<lparr>w_total_paid := Some 999999999999999\<rparr>]\<rparr>,
      seqs = (\<lambda>t. 0), txn = None, issued = []\<rparr>"

text \<open>A worker with two payments of the same date.\<close>

definition first_payment :: payment where
  "first_payment = \<lparr>p_id = 1, p_payee_id = Some 1, p_amount = 50000,
                     p_payment_date = (2024, 2, 10), p_description = Some ''advance'',
                     p_created_at = 1\<rparr>"

definition second_payment :: payment where
  "second_payment = \<lparr>p_id = 2, p_payee_id = Some 1, p_amount = 25050,
                      p_payment_date = (2024, 2, 10), p_description = Some ''balance'',
                      p_created_at = 2\<rparr>"

definition tie_store :: store where
  "tie_store =
     \<lparr>tabs = demo_tables\<lparr>workers := [1 \<mapsto> ada\<lparr>w_total_paid := Some 75050,
                                             w_last_payment_date := Some (2024, 2, 10)\<rparr>],
                         worker_payments := [first_payment, second_payment]\<rparr>,
      seqs = (\<lambda>t. if t = WorkerPayments then 2 else 0), txn = None, issued = []\<rparr>"

definition cent_run :: "payment response \<times> store" where
  "cent_run =
     recordPayment Worker (IntId 1) (Some (Given (1 / 100), Given (2024, 2, 10), None)) 1
       demo_store"

definition half_cent_back_run :: "payment response \<times> store" where
  "half_cent_back_run =
     recordPayment Worker (IntId 1) (Some (Given (- (1 / 200)), Given (2024, 2, 11), None)) 2
       (snd cent_run)"

definition scenario_calls :: "(rat param \<times> date param \<times> string option \<times> timestamp) list" where
  "scenario_calls = [(Given 500, Given (2024, 2, 10), Some ''advance'', 1),
                     (Given (501 / 2), Given (2024, 2, 15), Some ''balance'', 2)]"

text \<open>A store whose vendor side is the worker side of \<open>demo_store\<close>.\<close>

definition mirror_store :: store where
  "mirror_store =
     \<lparr>tabs = demo_tables\<lparr>workers := Map.empty,
                         vendors := [1 \<mapsto> cement\<lparr>v_total_paid := Some 0\<rparr>]\<rparr>,
      seqs = (\<lambda>t. 0), txn = None, issued = []\<rparr>"





section \<open>Evaluating the model\<close>

lemma floor_rat_numeral: "\<lfloor>numeral a / numeral b :: rat\<rfloor> = numeral a div numeral b"
  using floor_divide_of_int_eq [of "numeral a" "numeral b", where ?'a = rat] by simp

lemma floor_rat_one: "\<lfloor>1 / numeral b :: rat\<rfloor> = 1 div numeral b"
  using floor_divide_of_int_eq [of 1 "numeral b", where ?'a = rat] by simp

lemma floor_rat_neg_numeral:
  "\<lfloor>- (numeral a / numeral b) :: rat\<rfloor> = - numeral a div numeral b"
  using floor_divide_of_int_eq [of "- numeral a" "numeral b", where ?'a = rat] by simp

declare run_worker_payment.simps [simp del]
declare run_vendor_payment.simps [simp del]

lemma run_worker_payment_Answered:
  "run_worker_payment rid amount pdate descr now (Answered r) s = (r, s)"
  by (subst run_worker_payment.simps) simp

lemma run_worker_payment_next:
  "awaits_left p \<noteq> 0 \<Longrightarrow>
   run_worker_payment rid amount pdate descr now p s =
     run_worker_payment rid amount pdate descr now
       (fst (worker_payment_step rid amount pdate descr now p s))
       (snd (worker_payment_step rid amount pdate descr now p s))"
  by (subst run_worker_payment.simps) (cases p; simp)

lemma run_vendor_payment_Answered:
  "run_vendor_payment rid amount pdate descr now (Answered r) s = (r, s)"
  by (subst run_vendor_payment.simps) simp

lemma run_vendor_payment_next:
  "awaits_left p \<noteq> 0 \<Longrightarrow>
   run_vendor_payment rid amount pdate descr now p s =
     run_vendor_payment rid amount pdate descr now
       (fst (vendor_payment_step rid amount pdate descr now p s))
       (snd (vendor_payment_step rid amount pdate descr now p s))"
  by (subst run_vendor_payment.simps) (cases p; simp)

text \<open>A request that no other overlaps is the familiar nest of \<^verbatim>\<open>try\<close> and \<^verbatim>\<open>catch\<close>.\<close>

lemma post_worker_payment_alone:
  "post_worker_payment rid (Some (amount, pdate, descr)) now s0 =
     (let s1 = query_begin s0 in
      case insert_worker_payment rid amount pdate descr now s1 of
        (Inl e, s2) \<Rightarrow> (Failure 500 e, query_rollback s2)
      | (Inr row, s2) \<Rightarrow>
          (case update_worker_paid amount pdate rid s2 of
             (Inl e, s3) \<Rightarrow> (Failure 500 e, query_rollback s3)
           | (Inr n, s3) \<Rightarrow> (Json row, query_commit s3)))"
  by (simp add: post_worker_payment_def run_worker_payment_next run_worker_payment_Answered
        Let_def split: prod.splits sum.splits)

lemma post_vendor_payment_alone:
  "post_vendor_payment rid (Some (amount, pdate, descr)) now s0 =
     (let s1 = query_begin s0 in
      case insert_vendor_payment rid amount pdate descr now s1 of
        (Inl e, s2) \<Rightarrow> (Failure 500 e, query_rollback s2)
      | (Inr row, s2) \<Rightarrow>
          (case update_vendor_paid amount pdate rid s2 of
             (Inl e, s3) \<Rightarrow> (Failure 500 e, query_rollback s3)
           | (Inr n, s3) \<Rightarrow> (Json row, query_commit s3)))"
  by (simp add: post_vendor_payment_def run_vendor_payment_next run_vendor_payment_Answered
        Let_def split: prod.splits sum.splits)

lemma post_payment_Thrown:
  "post_worker_payment rid None now s = (Thrown, s)"
  "post_vendor_payment rid None now s = (Thrown, s)"
  by (simp_all add: post_worker_payment_def post_vendor_payment_def)

lemmas txn_defs = query_begin_def query_commit_def query_rollback_def send_def nextval_def Let_def

lemmas run_defs =
  post_worker_payment_alone insert_worker_payment_def update_worker_paid_def
  post_vendor_payment_alone insert_vendor_payment_def update_vendor_paid_def
  payment_row_def txn_defs decimal_def to_cents_def of_cents_def round_half_away_def
  floor_rat_numeral floor_rat_one floor_rat_neg_numeral

lemmas demo_defs =
  demo_store_def demo_tables_def ada_def cement_def full_store_def tie_store_def
  first_payment_def second_payment_def mirror_store_def

section \<open>What a call does when no other request overlaps\<close>

lemma decimal_Inr: "decimal p r = Inr c \<Longrightarrow> c = to_cents r"
  by (auto simp: decimal_def Let_def split: if_splits)

lemma decimal_Inr_iff: "decimal p r = Inr c \<longleftrightarrow> c = to_cents r \<and> \<bar>to_cents r\<bar> < 10 ^ p"
  by (auto simp: decimal_def Let_def split: if_splits)

lemma post_worker_payment_Json:
  assumes "post_worker_payment rid body now s = (Json row, s')"
  shows "\<exists>i a d descr w c t. rid = IntId i \<and> body = Some (Given a, Given d, descr) \<and>
           workers (tabs s) i = Some w \<and> decimal 10 a = Inr c \<and>
           decimal 15 (of_cents (coalesce0 (w_total_paid w)) + a) = Inr t \<and>
           row = \<lparr>p_id = seqs s WorkerPayments + 1, p_payee_id = Some i, p_amount = c,
                    p_payment_date = d, p_description = descr, p_created_at = now\<rparr> \<and>
           tabs s' = (tabs s)\<lparr>worker_payments := worker_payments (tabs s) @ [row],
                       workers := (workers (tabs s))
                         (i \<mapsto> w\<lparr>w_total_paid := Some t, w_last_payment_date := Some d\<rparr>)\<rparr> \<and>
           seqs s' = (seqs s)(WorkerPayments := seqs s WorkerPayments + 1) \<and>
           txn s' = None \<and>
           issued s' = issued s @ [BEGIN, INSERT WorkerPayments, UPDATE Workers, COMMIT]"
proof (cases body)
  case None
  with assms show ?thesis by (simp add: post_payment_Thrown)
next
  case (Some b)
  obtain amount pdate descr where b: "b = (amount, pdate, descr)" by (cases b) auto
  from assms Some b
  have "post_worker_payment rid (Some (amount, pdate, descr)) now s = (Json row, s')" by simp
  then show ?thesis
    unfolding post_worker_payment_alone insert_worker_payment_def update_worker_paid_def
      payment_row_def txn_defs Some b
    by (cases rid; cases amount; cases pdate)
       (auto split: if_splits sum.splits option.splits prod.splits)
qed

lemma post_vendor_payment_Json:
  assumes "post_vendor_payment rid body now s = (Json row, s')"
  shows "\<exists>i a d descr v c t. rid = IntId i \<and> body = Some (Given a, Given d, descr) \<and>
           vendors (tabs s) i = Some v \<and> decimal 10 a = Inr c \<and>
           decimal 15 (of_cents (coalesce0 (v_total_paid v)) + a) = Inr t \<and>
           row = \<lparr>p_id = seqs s VendorPayments + 1, p_payee_id = Some i, p_amount = c,
                    p_payment_date = d, p_description = descr, p_created_at = now\<rparr> \<and>
           tabs s' = (tabs s)\<lparr>vendor_payments := vendor_payments (tabs s) @ [row],
                       vendors := (vendors (tabs s))
                         (i \<mapsto> v\<lparr>v_total_paid := Some t, v_last_payment_date := Some d\<rparr>)\<rparr> \<and>
           seqs s' = (seqs s)(VendorPayments := seqs s VendorPayments + 1) \<and>
           txn s' = None \<and>
           issued s' = issued s @ [BEGIN, INSERT VendorPayments, UPDATE Vendors, COMMIT]"
proof (cases body)
  case None
  with assms show ?thesis by (simp add: post_payment_Thrown)
next
  case (Some b)
  obtain amount pdate descr where b: "b = (amount, pdate, descr)" by (cases b) auto
  from assms Some b
  have "post_vendor_payment rid (Some (amount, pdate, descr)) now s = (Json row, s')" by simp
  then show ?thesis
    unfolding post_vendor_payment_alone insert_vendor_payment_def update_vendor_paid_def
      payment_row_def txn_defs Some b
    by (cases rid; cases amount; cases pdate)
       (auto split: if_splits sum.splits option.splits prod.splits)
qed

lemma post_worker_payment_Failure:
  assumes "txn s = None"
    and "post_worker_payment rid body now s = (Failure c e, s')"
  shows "c = 500 \<and> tabs s' = tabs s \<and> txn s' = None"
proof (cases body)
  case None
  with assms show ?thesis by (simp add: post_payment_Thrown)
next
  case (Some b)
  obtain amount pdate descr where b: "b = (amount, pdate, descr)" by (cases b) auto
  from assms Some b
  have "post_worker_payment rid (Some (amount, pdate, descr)) now s = (Failure c e, s')" by simp
  with assms(1) show ?thesis
    unfolding post_worker_payment_alone insert_worker_payment_def update_worker_paid_def
      payment_row_def txn_defs
    by (cases rid; cases amount; cases pdate)
       (auto split: if_splits sum.splits option.splits prod.splits)
qed

lemma post_vendor_payment_Failure:
  assumes "txn s = None"
    and "post_vendor_payment rid body now s = (Failure c e, s')"
  shows "c = 500 \<and> tabs s' = tabs s \<and> txn s' = None"
proof (cases body)
  case None
  with assms show ?thesis by (simp add: post_payment_Thrown)
next
  case (Some b)
  obtain amount pdate descr where b: "b = (amount, pdate, descr)" by (cases b) auto
  from assms Some b
  have "post_vendor_payment rid (Some (amount, pdate, descr)) now s = (Failure c e, s')" by simp
  with assms(1) show ?thesis
    unfolding post_vendor_payment_alone insert_vendor_payment_def update_vendor_paid_def
      payment_row_def txn_defs
    by (cases rid; cases amount; cases pdate)
       (auto split: if_splits sum.splits option.splits prod.splits)
qed

text \<open>The INSERT is refused: the call fails there, and which error it is.\<close>

lemma post_worker_payment_rejected:
  assumes "txn s = None"
    and "payee_missing Worker (tabs s) rid \<or> unreadable_input rid amount pdate"
  shows "\<exists>e s'. post_worker_payment rid (Some (amount, pdate, descr)) now s = (Failure 500 e, s') \<and>
           tabs s' = tabs s \<and> txn s' = None \<and>
           issued s' = issued s @ [BEGIN, INSERT WorkerPayments, ROLLBACK] \<and>
           (\<forall>i a d. rid = IntId i \<and> amount = Given a \<and> pdate = Given d \<and> row_fits Worker a s
              \<longrightarrow> e = ForeignKeyViolation)"
  using assms
  unfolding post_worker_payment_alone insert_worker_payment_def payment_row_def txn_defs
    unreadable_input_def row_fits_def
  by (cases rid; cases amount; cases pdate)
     (auto simp: decimal_def Let_def split: if_splits sum.splits option.splits prod.splits)

lemma post_vendor_payment_rejected:
  assumes "txn s = None"
    and "payee_missing Vendor (tabs s) rid \<or> unreadable_input rid amount pdate"
  shows "\<exists>e s'. post_vendor_payment rid (Some (amount, pdate, descr)) now s = (Failure 500 e, s') \<and>
           tabs s' = tabs s \<and> txn s' = None \<and>
           issued s' = issued s @ [BEGIN, INSERT VendorPayments, ROLLBACK] \<and>
           (\<forall>i a d. rid = IntId i \<and> amount = Given a \<and> pdate = Given d \<and> row_fits Vendor a s
              \<longrightarrow> e = ForeignKeyViolation)"
  using assms
  unfolding post_vendor_payment_alone insert_vendor_payment_def payment_row_def txn_defs
    unreadable_input_def row_fits_def
  by (cases rid; cases amount; cases pdate)
     (auto simp: decimal_def Let_def split: if_splits sum.splits option.splits prod.splits)

text \<open>The store takes the payment: the call succeeds.\<close>

lemma post_worker_payment_accepted:
  assumes "accepted Worker i a s"
  shows "\<exists>row s'. post_worker_payment (IntId i) (Some (Given a, Given d, descr)) now s = (Json row, s')"
  using assms
  unfolding post_worker_payment_alone insert_worker_payment_def update_worker_paid_def
    payment_row_def txn_defs accepted_def row_fits_def
  by (auto simp: decimal_def Let_def split: if_splits sum.splits option.splits prod.splits)

lemma post_vendor_payment_accepted:
  assumes "accepted Vendor i a s"
  shows "\<exists>row s'. post_vendor_payment (IntId i) (Some (Given a, Given d, descr)) now s = (Json row, s')"
  using assms
  unfolding post_vendor_payment_alone insert_vendor_payment_def update_vendor_paid_def
    payment_row_def txn_defs accepted_def row_fits_def
  by (auto simp: decimal_def Let_def split: if_splits sum.splits option.splits prod.splits)

text \<open>With a parsed body the first two statements are always the same.\<close>

lemma post_worker_payment_first_statements:
  "\<exists>rest. issued (snd (post_worker_payment rid (Some (amount, pdate, descr)) now s))
            = issued s @ BEGIN # INSERT WorkerPayments # rest"
  unfolding post_worker_payment_alone insert_worker_payment_def update_worker_paid_def
    payment_row_def txn_defs
  by (cases rid; cases amount; cases pdate)
     (auto split: if_splits sum.splits option.splits prod.splits)

lemma post_vendor_payment_first_statements:
  "\<exists>rest. issued (snd (post_vendor_payment rid (Some (amount, pdate, descr)) now s))
            = issued s @ BEGIN # INSERT VendorPayments # rest"
  unfolding post_vendor_payment_alone insert_vendor_payment_def update_vendor_paid_def
    payment_row_def txn_defs
  by (cases rid; cases amount; cases pdate)
     (auto split: if_splits sum.splits option.splits prod.splits)

lemma recordPayment_Json:
  assumes "recordPayment k rid body now s = (Json row, s')"
  shows "\<exists>i a d descr tp. rid = IntId i \<and> body = Some (Given a, Given d, descr) \<and>
           total_paid k (tabs s) i = Some tp \<and>
           p_payee_id row = Some i \<and> p_amount row = to_cents a \<and> p_payment_date row = d \<and>
           ledger k (tabs s') = ledger k (tabs s) @ [row] \<and>
           total_paid k (tabs s') = (total_paid k (tabs s))
              (i \<mapsto> Some (to_cents (of_cents (coalesce0 tp) + a))) \<and>
           last_payment_date k (tabs s') = (last_payment_date k (tabs s))(i \<mapsto> Some d) \<and>
           txn s' = None"
proof (cases k)
  case Worker
  with assms have "post_worker_payment rid body now s = (Json row, s')" by simp
  from post_worker_payment_Json [OF this] Worker show ?thesis
    by (auto simp: fun_eq_iff dest!: decimal_Inr)
next
  case Vendor
  with assms have "post_vendor_payment rid body now s = (Json row, s')" by simp
  from post_vendor_payment_Json [OF this] Vendor show ?thesis
    by (auto simp: fun_eq_iff dest!: decimal_Inr)
qed

lemma recordPayment_Failure:
  assumes "txn s = None"
    and "recordPayment k rid body now s = (Failure c e, s')"
  shows "c = 500 \<and> tabs s' = tabs s \<and> txn s' = None"
proof (cases k)
  case Worker
  with assms(2) have "post_worker_payment rid body now s = (Failure c e, s')" by simp
  from post_worker_payment_Failure [OF assms(1) this] show ?thesis .
next
  case Vendor
  with assms(2) have "post_vendor_payment rid body now s = (Failure c e, s')" by simp
  from post_vendor_payment_Failure [OF assms(1) this] show ?thesis .
qed

lemma recordPayment_Thrown: "recordPayment k rid None now s = (Thrown, s)"
  by (cases k) (simp_all add: post_payment_Thrown)

lemma recordPayment_rejected:
  assumes "txn s = None"
    and "payee_missing k (tabs s) rid \<or> unreadable_input rid amount pdate"
  shows "\<exists>e s'. recordPayment k rid (Some (amount, pdate, descr)) now s = (Failure 500 e, s') \<and>
           tabs s' = tabs s \<and> txn s' = None \<and>
           issued s' = issued s @ [BEGIN, INSERT (ledger_table k), ROLLBACK] \<and>
           (\<forall>i a d. rid = IntId i \<and> amount = Given a \<and> pdate = Given d \<and> row_fits k a s
              \<longrightarrow> e = ForeignKeyViolation)"
proof (cases k)
  case Worker
  with assms(2) have "payee_missing Worker (tabs s) rid \<or> unreadable_input rid amount pdate"
    by simp
  from post_worker_payment_rejected [OF assms(1) this, of descr now] Worker
  show ?thesis by simp
next
  case Vendor
  with assms(2) have "payee_missing Vendor (tabs s) rid \<or> unreadable_input rid amount pdate"
    by simp
  from post_vendor_payment_rejected [OF assms(1) this, of descr now] Vendor
  show ?thesis by simp
qed

lemma recordPayment_accepted:
  assumes "accepted k i a s"
  shows "\<exists>row s'. recordPayment k (IntId i) (Some (Given a, Given d, descr)) now s = (Json row, s')"
  using assms post_worker_payment_accepted [of i a s d descr now]
    post_vendor_payment_accepted [of i a s d descr now]
  by (cases k) simp_all

lemma recordPayment_first_statements:
  "\<exists>rest. issued (snd (recordPayment k rid (Some (amount, pdate, descr)) now s))
            = issued s @ BEGIN # INSERT (ledger_table k) # rest"
  using post_worker_payment_first_statements
      [where s = s and rid = rid and amount = amount and pdate = pdate and descr = descr
         and now = now]
    post_vendor_payment_first_statements
      [where s = s and rid = rid and amount = amount and pdate = pdate and descr = descr
         and now = now]
  by (cases k) simp_all

section \<open>Atomicity of a call\<close>

text \<open>
  Run with no other request in between, on a store with no transaction left open, a
  call that is answered at all either answers with the new ledger entry, and then the
  entry is in the ledger and the total and last payment date of the payee are updated
  with the same amount and date, or answers status 500, and then every table is as
  before. Either way no transaction is left open.
\<close>

lemma lone_call_all_or_nothing:
  assumes "txn s = None"
    and "recordPayment k rid (Some (amount, pdate, descr)) now s = (r, s')"
  shows "(\<exists>row i a d tp. r = Json row \<and> rid = IntId i \<and> amount = Given a \<and> pdate = Given d \<and>
            ledger k (tabs s') = ledger k (tabs s) @ [row] \<and> p_payee_id row = Some i \<and>
            p_amount row = to_cents a \<and> p_payment_date row = d \<and>
            total_paid k (tabs s) i = Some tp \<and>
            total_paid k (tabs s') i = Some (Some (to_cents (of_cents (coalesce0 tp) + a))) \<and>
            last_payment_date k (tabs s') i = Some (Some d) \<and> txn s' = None)
         \<or> (\<exists>e. r = Failure 500 e \<and> tabs s' = tabs s \<and> txn s' = None)"
proof (cases r)
  case (Json row)
  with assms(2)
  have "recordPayment k rid (Some (amount, pdate, descr)) now s = (Json row, s')" by simp
  from recordPayment_Json [OF this] Json show ?thesis by auto
next
  case (Failure c e)
  with assms(2)
  have "recordPayment k rid (Some (amount, pdate, descr)) now s = (Failure c e, s')" by simp
  from recordPayment_Failure [OF assms(1) this] Failure show ?thesis by simp
next
  case Thrown
  with assms(2) show ?thesis
    by (cases k)
       (auto simp: post_worker_payment_alone post_vendor_payment_alone Let_def
             split: prod.splits sum.splits)
qed

text \<open>A request alone is the schedule that serves its four statements in a row.\<close>

lemma lone_call_is_a_schedule:
  "interleave [0, 0, 0, 0] [(Call k rid amount pdate descr now, Start)] s =
     ([(Call k rid amount pdate descr now,
        Answered (fst (recordPayment k rid (Some (amount, pdate, descr)) now s)))],
      snd (recordPayment k rid (Some (amount, pdate, descr)) now s))"
  by (cases k)
     (auto simp: post_worker_payment_alone post_vendor_payment_alone Let_def
           split: prod.splits sum.splits)


section \<open>The running total\<close>

lemma round_half_away_of_int: "round_half_away (of_int n) = n"
  unfolding round_half_away_def by (simp; linarith)

lemma to_cents_of_cents: "to_cents (of_cents n) = n"
  by (simp add: to_cents_def of_cents_def round_half_away_of_int)

lemma to_cents_nonneg: "0 \<le> r \<Longrightarrow> 0 \<le> to_cents r"
  by (simp add: to_cents_def round_half_away_def)

lemma to_cents_add_nonneg:
  assumes "0 \<le> c" and "0 \<le> r"
  shows "to_cents (of_cents c + r) = c + to_cents r"
proof -
  have "100 * (of_cents c + r) = of_int c + 100 * r" by (simp add: of_cents_def algebra_simps)
  moreover have "\<lfloor>of_int c + 100 * r + 1 / 2\<rfloor> = c + \<lfloor>100 * r + 1 / 2\<rfloor>"
    by (simp add: add.assoc)
  ultimately show ?thesis using assms by (simp add: to_cents_def round_half_away_def)
qed

lemma to_cents_add_exact:
  assumes "of_cents (to_cents r) = r"
  shows "to_cents (of_cents c + r) = c + to_cents r"
proof -
  have "of_cents c + r = of_cents (c + to_cents r)"
    using assms by (simp add: of_cents_def add_divide_distrib)
  then show ?thesis by (simp only: to_cents_of_cents)
qed

lemma ledger_sum_append:
  assumes "ledger k t' = ledger k t @ [row]" and "p_payee_id row = Some i"
  shows "ledger_sum k t' i = ledger_sum k t i + p_amount row"
  using assms by (simp add: ledger_sum_def entries_of_def where_payee_def)

lemma recordPayment_balanced:
  assumes bal: "balanced k (tabs s) i"
    and run: "recordPayment k (IntId i) (Some (amount, pdate, descr)) now s = (Json row, s')"
    and amt: "(0 \<le> ledger_sum k (tabs s) i \<and> nonneg_amount amount) \<or> whole_cents amount"
  shows "balanced k (tabs s') i \<and>
         (0 \<le> ledger_sum k (tabs s) i \<and> nonneg_amount amount \<longrightarrow> 0 \<le> ledger_sum k (tabs s') i)"
proof -
  from recordPayment_Json [OF run] obtain a d tp where
    a: "amount = Given a" and tp: "total_paid k (tabs s) i = Some tp"
    and row: "p_payee_id row = Some i" "p_amount row = to_cents a"
    and led: "ledger k (tabs s') = ledger k (tabs s) @ [row]"
    and tot: "total_paid k (tabs s') =
               (total_paid k (tabs s))(i \<mapsto> Some (to_cents (of_cents (coalesce0 tp) + a)))"
    by auto
  from bal tp have eq: "coalesce0 tp = ledger_sum k (tabs s) i" by (simp add: balanced_def)
  have sum: "ledger_sum k (tabs s') i = ledger_sum k (tabs s) i + to_cents a"
    using ledger_sum_append [OF led row(1)] row(2) by simp
  have "to_cents (of_cents (coalesce0 tp) + a) = coalesce0 tp + to_cents a"
    using amt a eq to_cents_add_nonneg [of "coalesce0 tp" a] to_cents_add_exact [of a "coalesce0 tp"]
    by auto
  with tot sum eq have "balanced k (tabs s') i" by (simp add: balanced_def)
  moreover have "0 \<le> ledger_sum k (tabs s) i \<and> nonneg_amount amount \<longrightarrow> 0 \<le> ledger_sum k (tabs s') i"
    using sum a to_cents_nonneg [of a] by auto
  ultimately show ?thesis by simp
qed

lemma record_all_balanced_nonneg:
  assumes "balanced k (tabs s) i" and "0 \<le> ledger_sum k (tabs s) i"
    and "\<forall>c \<in> set calls. nonneg_amount (fst c)"
    and "record_all k i calls s = Some s'"
  shows "balanced k (tabs s') i"
  using assms
proof (induction calls arbitrary: s)
  case Nil
  then show ?case by simp
next
  case (Cons c calls)
  obtain amount pdate descr now where c: "c = (amount, pdate, descr, now)" by (cases c) auto
  from Cons.prems(4) c obtain row s1 where
    run: "recordPayment k (IntId i) (Some (amount, pdate, descr)) now s = (Json row, s1)"
    and rest: "record_all k i calls s1 = Some s'"
    by (auto split: prod.splits response.splits)
  from Cons.prems(3) c have "nonneg_amount amount" by simp
  with recordPayment_balanced [OF Cons.prems(1) run] Cons.prems(2)
  have "balanced k (tabs s1) i" "0 \<le> ledger_sum k (tabs s1) i" by auto
  with Cons.IH [OF _ _ _ rest] Cons.prems(3) show ?case by simp
qed

lemma record_all_balanced_exact:
  assumes "balanced k (tabs s) i"
    and "\<forall>c \<in> set calls. whole_cents (fst c)"
    and "record_all k i calls s = Some s'"
  shows "balanced k (tabs s') i"
  using assms
proof (induction calls arbitrary: s)
  case Nil
  then show ?case by simp
next
  case (Cons c calls)
  obtain amount pdate descr now where c: "c = (amount, pdate, descr, now)" by (cases c) auto
  from Cons.prems(3) c obtain row s1 where
    run: "recordPayment k (IntId i) (Some (amount, pdate, descr)) now s = (Json row, s1)"
    and rest: "record_all k i calls s1 = Some s'"
    by (auto split: prod.splits response.splits)
  from Cons.prems(2) c have "whole_cents amount" by simp
  with recordPayment_balanced [OF Cons.prems(1) run]
  have "balanced k (tabs s1) i" by auto
  with Cons.IH [OF _ _ rest] Cons.prems(2) show ?case by simp
qed

text \<open>
  Nothing in the handlers rejects a negative amount or one with more than two
  fractional digits. The INSERT rounds the amount itself, the UPDATE rounds the sum of
  the old total and the unrounded amount. After a payment of 0.01 and one of -0.005 the
  ledger holds 0.01 and -0.01, which sum to 0.00, and the total is 0.01.
\<close>

theorem total_paid_drifts_counterexample:
  "balanced Worker (tabs demo_store) 1 \<and>
   fst cent_run = Json \<lparr>p_id = 1, p_payee_id = Some 1, p_amount = 1,
                         p_payment_date = (2024, 2, 10), p_description = None, p_created_at = 1\<rparr> \<and>
   fst half_cent_back_run = Json \<lparr>p_id = 2, p_payee_id = Some 1, p_amount = - 1,
                         p_payment_date = (2024, 2, 11), p_description = None, p_created_at = 2\<rparr> \<and>
   total_paid Worker (tabs (snd half_cent_back_run)) 1 = Some (Some 1) \<and>
   ledger_sum Worker (tabs (snd half_cent_back_run)) 1 = 0 \<and>
   \<not> balanced Worker (tabs (snd half_cent_back_run)) 1"
  by (simp add: cent_run_def half_cent_back_run_def run_defs demo_defs balanced_def
        ledger_sum_def entries_of_def where_payee_def)

text \<open>
  C2 (amended). For a payee whose total, NULL read as 0, is the sum of the amounts of
  its ledger entries, that is still so after any sequence of successful recordPayment
  calls against the payee, provided every amount has at most two fractional digits, or
  every amount is non-negative and the sum is non-negative at the start.
\<close>

theorem total_paid_is_ledger_sum:
  assumes "balanced k (tabs s) i"
    and "record_all k i calls s = Some s'"
    and "(0 \<le> ledger_sum k (tabs s) i \<and> (\<forall>c \<in> set calls. nonneg_amount (fst c)))
           \<or> (\<forall>c \<in> set calls. whole_cents (fst c))"
  shows "balanced k (tabs s') i"
  using assms record_all_balanced_nonneg [of k s i calls s']
    record_all_balanced_exact [of k s i calls s']
  by blast

text \<open>
  The vendor of \<open>demo_store\<close> has a NULL total and no entries; after 500.00 and
  250.50 its total is 750.50.
\<close>

theorem total_paid_is_ledger_sum_witness:
  "balanced Vendor (tabs demo_store) 1 \<and>
   0 \<le> ledger_sum Vendor (tabs demo_store) 1 \<and>
   nonneg_amount (Given 500) \<and> nonneg_amount (Given (501 / 2)) \<and>
   (\<exists>s'. record_all Vendor 1 scenario_calls demo_store = Some s' \<and>
          total_paid Vendor (tabs s') 1 = Some (Some 75050) \<and>
          balanced Vendor (tabs s') 1)"
proof -
  have bal: "balanced Vendor (tabs demo_store) 1"
    by (simp add: demo_defs balanced_def ledger_sum_def entries_of_def where_payee_def)
  have pos: "0 \<le> ledger_sum Vendor (tabs demo_store) 1"
    by (simp add: demo_defs ledger_sum_def entries_of_def where_payee_def)
  have amt: "\<forall>c \<in> set scenario_calls. nonneg_amount (fst c)"
    by (simp add: scenario_calls_def)
  obtain s' where run: "record_all Vendor 1 scenario_calls demo_store = Some s'"
    and tot: "total_paid Vendor (tabs s') 1 = Some (Some 75050)"
    by (simp add: scenario_calls_def run_defs demo_defs)
  from total_paid_is_ledger_sum [OF bal run] pos amt have "balanced Vendor (tabs s') 1" by blast
  with bal pos run tot show ?thesis by auto
qed

section \<open>The last payment date\<close>

text \<open>The store takes a payment exactly when the call succeeds.\<close>

lemma accepted_iff:
  "(\<exists>row s'. recordPayment k (IntId i) (Some (Given a, Given d, descr)) now s = (Json row, s'))
     \<longleftrightarrow> accepted k i a s"
proof
  assume "\<exists>row s'. recordPayment k (IntId i) (Some (Given a, Given d, descr)) now s = (Json row, s')"
  then obtain row s' where
    run: "recordPayment k (IntId i) (Some (Given a, Given d, descr)) now s = (Json row, s')"
    by blast
  show "accepted k i a s"
  proof (cases k)
    case Worker
    with run have "post_worker_payment (IntId i) (Some (Given a, Given d, descr)) now s = (Json row, s')"
      by simp
    with Worker show ?thesis
      unfolding post_worker_payment_alone insert_worker_payment_def update_worker_paid_def
        payment_row_def txn_defs accepted_def row_fits_def
      by (auto simp: decimal_def Let_def split: if_splits sum.splits option.splits prod.splits)
  next
    case Vendor
    with run have "post_vendor_payment (IntId i) (Some (Given a, Given d, descr)) now s = (Json row, s')"
      by simp
    with Vendor show ?thesis
      unfolding post_vendor_payment_alone insert_vendor_payment_def update_vendor_paid_def
        payment_row_def txn_defs accepted_def row_fits_def
      by (auto simp: decimal_def Let_def split: if_splits sum.splits option.splits prod.splits)
  qed
next
  assume "accepted k i a s"
  then show "\<exists>row s'. recordPayment k (IntId i) (Some (Given a, Given d, descr)) now s = (Json row, s')"
    by (rule recordPayment_accepted)
qed

text \<open>
  C3. For a payee of either kind, two calls that the store takes one after the other
  both succeed, and each sets the last payment date to its own date, whatever the date
  before was: recorded in the order 2024-03-01, 2024-01-01, the payments leave
  2024-01-01. The store takes a call exactly when the payee exists, the amount and the
  new total fit their columns and the sequence gives an unused id.
\<close>

theorem last_payment_date_follows_call_order:
  assumes "accepted k i a1 s"
    and "accepted k i a2 (snd (recordPayment k (IntId i) (Some (Given a1, Given d1, descr1)) now1 s))"
  shows "\<exists>row1 s1 row2 s2.
           recordPayment k (IntId i) (Some (Given a1, Given d1, descr1)) now1 s = (Json row1, s1) \<and>
           last_payment_date k (tabs s1) i = Some (Some d1) \<and>
           recordPayment k (IntId i) (Some (Given a2, Given d2, descr2)) now2 s1 = (Json row2, s2) \<and>
           last_payment_date k (tabs s2) i = Some (Some d2)"
proof -
  from recordPayment_accepted [OF assms(1)] obtain row1 s1 where
    run1: "recordPayment k (IntId i) (Some (Given a1, Given d1, descr1)) now1 s = (Json row1, s1)"
    by blast
  with assms(2) have "accepted k i a2 s1" by simp
  from recordPayment_accepted [OF this] obtain row2 s2 where
    run2: "recordPayment k (IntId i) (Some (Given a2, Given d2, descr2)) now2 s1 = (Json row2, s2)"
    by blast
  from recordPayment_Json [OF run1] have "last_payment_date k (tabs s1) i = Some (Some d1)" by auto
  moreover
  from recordPayment_Json [OF run2] have "last_payment_date k (tabs s2) i = Some (Some d2)" by auto
  ultimately show ?thesis using run1 run2 by blast
qed

text \<open>The worker and the vendor of \<open>demo_store\<close>, each paid on 2024-03-01 and then on 2024-01-01.\<close>

theorem last_payment_date_follows_call_order_witness:
  "accepted Worker 1 500 demo_store \<and> accepted Vendor 1 500 demo_store \<and>
   last_payment_date Worker
     (tabs (snd (recordPayment Worker (IntId 1) (Some (Given 250, Given (2024, 1, 1), None)) 2
        (snd (recordPayment Worker (IntId 1) (Some (Given 500, Given (2024, 3, 1), None)) 1
           demo_store))))) 1
     = Some (Some (2024, 1, 1)) \<and>
   last_payment_date Vendor
     (tabs (snd (recordPayment Vendor (IntId 1) (Some (Given 250, Given (2024, 1, 1), None)) 2
        (snd (recordPayment Vendor (IntId 1) (Some (Given 500, Given (2024, 3, 1), None)) 1
           demo_store))))) 1
     = Some (Some (2024, 1, 1))"
proof -
  have w1: "accepted Worker 1 500 demo_store"
    by (simp add: accepted_def row_fits_def to_cents_def of_cents_def round_half_away_def
          floor_rat_numeral demo_defs)
  have v1: "accepted Vendor 1 500 demo_store"
    by (simp add: accepted_def row_fits_def to_cents_def of_cents_def round_half_away_def
          floor_rat_numeral demo_defs)
  have w2: "accepted Worker 1 250
              (snd (recordPayment Worker (IntId 1) (Some (Given 500, Given (2024, 3, 1), None)) 1
                      demo_store))"
    by (simp add: accepted_def row_fits_def run_defs demo_defs)
  have v2: "accepted Vendor 1 250
              (snd (recordPayment Vendor (IntId 1) (Some (Given 500, Given (2024, 3, 1), None)) 1
                      demo_store))"
    by (simp add: accepted_def row_fits_def run_defs demo_defs)
  from last_payment_date_follows_call_order
         [OF w1 w2, of "(2024, 1, 1)" None 2]
  have w: "last_payment_date Worker
     (tabs (snd (recordPayment Worker (IntId 1) (Some (Given 250, Given (2024, 1, 1), None)) 2
        (snd (recordPayment Worker (IntId 1) (Some (Given 500, Given (2024, 3, 1), None)) 1
           demo_store))))) 1 = Some (Some (2024, 1, 1))"
    by auto
  from last_payment_date_follows_call_order
         [OF v1 v2, of "(2024, 1, 1)" None 2]
  have v: "last_payment_date Vendor
     (tabs (snd (recordPayment Vendor (IntId 1) (Some (Given 250, Given (2024, 1, 1), None)) 2
        (snd (recordPayment Vendor (IntId 1) (Some (Given 500, Given (2024, 3, 1), None)) 1
           demo_store))))) 1 = Some (Some (2024, 1, 1))"
    by auto
  from w1 v1 w v show ?thesis by simp
qed

section \<open>A payee that does not exist\<close>

text \<open>
  The INSERT for a missing payee violates the foreign key, and the \<^verbatim>\<open>catch\<close> block
  answers with status 500, the status of every other failure, here of a malformed
  amount.
\<close>

theorem missing_payee_is_status_500_counterexample:
  "fst (recordPayment Worker (IntId 7) (Some (Given 500, Given (2024, 2, 10), Some ''advance'')) 1
          demo_store) = Failure 500 ForeignKeyViolation \<and>
   fst (recordPayment Worker (IntId 1) (Some (Malformed, Given (2024, 2, 10), Some ''advance'')) 1
          demo_store) = Failure 500 InvalidText"
  by (simp add: run_defs demo_defs)

text \<open>
  C4 (amended). A call with a parsed body whose id names no payee of its kind, with no
  other request in between and no transaction left open, sends \<^verbatim>\<open>BEGIN\<close>, the
  \<^verbatim>\<open>INSERT\<close> and \<^verbatim>\<open>ROLLBACK\<close> and fails with status 500 and an error of the store.
  That error is the foreign-key violation when the id is an integer, the amount and the
  date are readable, the amount fits its column and the sequence gives an unused id.
  Every table is unchanged: each payee has as many ledger entries as before.
\<close>

theorem recordPayment_missing_payee:
  assumes "txn s = None" and "payee_missing k (tabs s) rid"
  shows "\<exists>e s'. recordPayment k rid (Some (amount, pdate, descr)) now s = (Failure 500 e, s') \<and>
           issued s' = issued s @ [BEGIN, INSERT (ledger_table k), ROLLBACK] \<and>
           (\<forall>i a d. rid = IntId i \<and> amount = Given a \<and> pdate = Given d \<and> row_fits k a s
              \<longrightarrow> e = ForeignKeyViolation) \<and>
           tabs s' = tabs s \<and>
           (\<forall>k' j. length (entries_of k' (tabs s') j) = length (entries_of k' (tabs s) j))"
proof -
  from assms(2) have "payee_missing k (tabs s) rid \<or> unreadable_input rid amount pdate" by simp
  from recordPayment_rejected [OF assms(1) this, of descr now]
  obtain e s' where "recordPayment k rid (Some (amount, pdate, descr)) now s = (Failure 500 e, s')"
    and "issued s' = issued s @ [BEGIN, INSERT (ledger_table k), ROLLBACK]"
    and "\<forall>i a d. rid = IntId i \<and> amount = Given a \<and> pdate = Given d \<and> row_fits k a s
           \<longrightarrow> e = ForeignKeyViolation"
    and "tabs s' = tabs s" by blast
  then show ?thesis by simp
qed

theorem recordPayment_missing_payee_witness:
  "txn demo_store = None \<and> payee_missing Vendor (tabs demo_store) (IntId 7) \<and>
   row_fits Vendor 500 demo_store \<and>
   (\<exists>s'. recordPayment Vendor (IntId 7) (Some (Given 500, Given (2024, 2, 10), None)) 1 demo_store
            = (Failure 500 ForeignKeyViolation, s') \<and>
          issued s' = [BEGIN, INSERT VendorPayments, ROLLBACK] \<and>
          tabs s' = tabs demo_store)"
proof -
  have a: "txn demo_store = None" by (simp add: demo_defs)
  have b: "payee_missing Vendor (tabs demo_store) (IntId 7)" by (simp add: demo_defs)
  have c: "row_fits Vendor 500 demo_store"
    by (simp add: row_fits_def to_cents_def round_half_away_def floor_rat_numeral demo_defs)
  have d: "issued demo_store = []" by (simp add: demo_defs)
  from recordPayment_missing_payee [OF a b, of "Given 500" "Given (2024, 2, 10)" None 1] c d
  have "\<exists>s'. recordPayment Vendor (IntId 7) (Some (Given 500, Given (2024, 2, 10), None)) 1 demo_store
            = (Failure 500 ForeignKeyViolation, s') \<and>
          issued s' = [BEGIN, INSERT VendorPayments, ROLLBACK] \<and>
          tabs s' = tabs demo_store"
    by auto
  with a b c show ?thesis by simp
qed

section \<open>Input that cannot be stored\<close>

text \<open>
  The handlers check nothing themselves. A negative amount is recorded, and a
  malformed amount is found by the store, after \<^verbatim>\<open>BEGIN\<close> and the \<^verbatim>\<open>INSERT\<close> were
  sent.
\<close>

theorem no_validation_before_storage_counterexample:
  "fst (recordPayment Worker (IntId 1) (Some (Given (- 5), Given (2024, 2, 10), None)) 1 demo_store)
     = Json \<lparr>p_id = 1, p_payee_id = Some 1, p_amount = - 500, p_payment_date = (2024, 2, 10),
             p_description = None, p_created_at = 1\<rparr> \<and>
   issued (snd (recordPayment Worker (IntId 1) (Some (Malformed, Given (2024, 2, 10), None)) 1
                  demo_store))
     = [BEGIN, INSERT WorkerPayments, ROLLBACK]"
  by (simp add: run_defs demo_defs)

text \<open>
  C5 (amended). recordPayment validates nothing before it turns to the store. When
  \<^verbatim>\<open>req.body\<close> is undefined the handler throws at the destructuring and sends no
  statement. With a parsed body it sends \<^verbatim>\<open>BEGIN\<close> and then the \<^verbatim>\<open>INSERT\<close>, whatever
  the id, the amount and the date are. When the id is not an integer, or the amount or
  the date is missing or is a text the store cannot read, and no transaction is left
  open and no other request comes in between, the store rejects the \<^verbatim>\<open>INSERT\<close>, the
  handler sends \<^verbatim>\<open>ROLLBACK\<close> and answers status 500, and no table changes. No amount
  is rejected for its sign: the payment is recorded whenever the payee exists, the
  amount and the new total fit their columns and the sequence gives an unused id.
\<close>

theorem recordPayment_validates_nothing:
  "recordPayment k rid None now s = (Thrown, s) \<and>
   (\<exists>rest. issued (snd (recordPayment k rid (Some (amount, pdate, descr)) now s))
             = issued s @ BEGIN # INSERT (ledger_table k) # rest) \<and>
   (txn s = None \<and> unreadable_input rid amount pdate \<longrightarrow>
      (\<exists>e s'. recordPayment k rid (Some (amount, pdate, descr)) now s = (Failure 500 e, s') \<and>
              tabs s' = tabs s \<and>
              issued s' = issued s @ [BEGIN, INSERT (ledger_table k), ROLLBACK])) \<and>
   (accepted k i a s \<longrightarrow>
      (\<exists>row s'. recordPayment k (IntId i) (Some (Given a, Given d, descr)) now s = (Json row, s') \<and>
                p_amount row = to_cents a))"
proof (intro conjI impI)
  show "recordPayment k rid None now s = (Thrown, s)" by (rule recordPayment_Thrown)
  show "\<exists>rest. issued (snd (recordPayment k rid (Some (amount, pdate, descr)) now s))
             = issued s @ BEGIN # INSERT (ledger_table k) # rest"
    by (rule recordPayment_first_statements)
next
  assume "txn s = None \<and> unreadable_input rid amount pdate"
  then have a: "txn s = None"
    and b: "payee_missing k (tabs s) rid \<or> unreadable_input rid amount pdate" by simp_all
  from recordPayment_rejected [OF a b, of descr now]
  show "\<exists>e s'. recordPayment k rid (Some (amount, pdate, descr)) now s = (Failure 500 e, s') \<and>
              tabs s' = tabs s \<and>
              issued s' = issued s @ [BEGIN, INSERT (ledger_table k), ROLLBACK]"
    by blast
next
  assume "accepted k i a s"
  from recordPayment_accepted [OF this, of d descr now] obtain row s' where
    run: "recordPayment k (IntId i) (Some (Given a, Given d, descr)) now s = (Json row, s')"
    by blast
  from recordPayment_Json [OF run] have "p_amount row = to_cents a" by auto
  with run show "\<exists>row s'. recordPayment k (IntId i) (Some (Given a, Given d, descr)) now s
                    = (Json row, s') \<and> p_amount row = to_cents a"
    by blast
qed

text \<open>
  On \<open>demo_store\<close>: a vendor payment with an unreadable date, and a worker payment of
  -5.00, which the store takes.
\<close>

theorem recordPayment_validates_nothing_witness:
  "txn demo_store = None \<and> unreadable_input (IntId 1) (Given 500) Malformed \<and>
   (\<exists>e s'. recordPayment Vendor (IntId 1) (Some (Given 500, Malformed, None)) 1 demo_store
              = (Failure 500 e, s') \<and>
            tabs s' = tabs demo_store \<and>
            issued s' = issued demo_store @ [BEGIN, INSERT (ledger_table Vendor), ROLLBACK]) \<and>
   accepted Worker 1 (- 5) demo_store \<and>
   (\<exists>row s'. recordPayment Worker (IntId 1) (Some (Given (- 5), Given (2024, 2, 10), None)) 1
                demo_store = (Json row, s') \<and>
              p_amount row = - 500)"
proof -
  have a: "txn demo_store = None" by (simp add: demo_defs)
  have b: "unreadable_input (IntId 1) (Given 500) Malformed" by (simp add: unreadable_input_def)
  have c: "accepted Worker 1 (- 5) demo_store"
    by (simp add: accepted_def row_fits_def to_cents_def of_cents_def round_half_away_def
          floor_rat_numeral demo_defs)
  have t: "to_cents (- 5) = - 500"
    by (simp add: to_cents_def round_half_away_def floor_rat_numeral)
  from recordPayment_validates_nothing
         [of Vendor "IntId 1" 1 demo_store "Given 500" Malformed None] a b
  have r: "\<exists>e s'. recordPayment Vendor (IntId 1) (Some (Given 500, Malformed, None)) 1 demo_store
              = (Failure 500 e, s') \<and>
            tabs s' = tabs demo_store \<and>
            issued s' = issued demo_store @ [BEGIN, INSERT (ledger_table Vendor), ROLLBACK]"
    by blast
  from recordPayment_validates_nothing
         [where k = Worker and i = 1 and a = "- 5" and s = demo_store and d = "(2024, 2, 10)"
            and descr = None and now = 1] c t
  have "\<exists>row s'. recordPayment Worker (IntId 1) (Some (Given (- 5), Given (2024, 2, 10), None)) 1
                demo_store = (Json row, s') \<and> p_amount row = - 500"
    by auto
  with a b c r show ?thesis by blast
qed

section \<open>The order of a listing\<close>

lemma order_by_payment_date_desc_exists:
  "order_by_payment_date_desc rows (rev (sort_key p_payment_date rows))"
proof -
  have "sorted (map p_payment_date (sort_key p_payment_date rows))" by simp
  then have "sorted_wrt (\<lambda>a b. p_payment_date a \<le> p_payment_date b) (sort_key p_payment_date rows)"
    by (simp add: sorted_map)
  then have "sorted_wrt (\<lambda>a b. p_payment_date b \<le> p_payment_date a)
               (rev (sort_key p_payment_date rows))"
    by (simp add: sorted_wrt_rev)
  then show ?thesis by (simp add: order_by_payment_date_desc_def)
qed

lemma listPayments_Json:
  "listPayments k (IntId i) s r \<longleftrightarrow>
     (\<exists>rs. r = Json rs \<and> order_by_payment_date_desc (entries_of k (tabs s) i) rs)"
  by (cases k; cases r) (auto simp: entries_of_def)

text \<open>
  The query sorts by payment date alone. For two payments of the same date both
  arrangements are answers, also the one with the older entry first.
\<close>

theorem ties_in_any_order_counterexample:
  "listPayments Worker (IntId 1) tie_store (Json [first_payment, second_payment]) \<and>
   listPayments Worker (IntId 1) tie_store (Json [second_payment, first_payment]) \<and>
   worker_payments (tabs tie_store) = [first_payment, second_payment] \<and>
   p_payment_date first_payment = p_payment_date second_payment \<and>
   p_id first_payment < p_id second_payment"
  by (simp add: demo_defs order_by_payment_date_desc_def where_payee_def)

text \<open>
  C6 (amended). For an integer id the listing always has an answer; every answer has
  status 200 and holds exactly the entries of that payee, with payment dates that never
  increase; it is the empty list when the payee has no entries. The order of entries
  of the same date is not determined.
\<close>

theorem listPayments_by_date_desc:
  "(\<exists>r. listPayments k (IntId i) s r) \<and>
   (\<forall>r. listPayments k (IntId i) s r \<longrightarrow>
      (\<exists>rs. r = Json rs \<and> mset rs = mset (entries_of k (tabs s) i) \<and>
            sorted_wrt (\<lambda>a b. p_payment_date b \<le> p_payment_date a) rs \<and>
            (entries_of k (tabs s) i = [] \<longrightarrow> rs = [])))"
proof -
  have "listPayments k (IntId i) s (Json (rev (sort_key p_payment_date (entries_of k (tabs s) i))))"
    by (simp add: listPayments_Json order_by_payment_date_desc_exists)
  then have "\<exists>r. listPayments k (IntId i) s r" ..
  moreover have "\<forall>r. listPayments k (IntId i) s r \<longrightarrow>
      (\<exists>rs. r = Json rs \<and> mset rs = mset (entries_of k (tabs s) i) \<and>
            sorted_wrt (\<lambda>a b. p_payment_date b \<le> p_payment_date a) rs \<and>
            (entries_of k (tabs s) i = [] \<longrightarrow> rs = []))"
    by (auto simp: listPayments_Json order_by_payment_date_desc_def)
  ultimately show ?thesis by simp
qed

theorem listPayments_by_date_desc_witness:
  "listPayments Worker (IntId 1) tie_store (Json [second_payment, first_payment]) \<and>
   mset [second_payment, first_payment] = mset (entries_of Worker (tabs tie_store) 1) \<and>
   listPayments Vendor (IntId 1) tie_store (Json []) \<and>
   \<not> listPayments Vendor (IntId 1) tie_store (Json [first_payment])"
proof -
  have a: "listPayments Worker (IntId 1) tie_store (Json [second_payment, first_payment])"
    by (simp add: demo_defs order_by_payment_date_desc_def where_payee_def)
  have b: "entries_of Vendor (tabs tie_store) 1 = []"
    by (simp add: demo_defs entries_of_def where_payee_def)
  from listPayments_by_date_desc [of Worker 1 tie_store] a
  have c: "mset [second_payment, first_payment] = mset (entries_of Worker (tabs tie_store) 1)"
    by blast
  from listPayments_by_date_desc [of Vendor 1 tie_store] b
  have d: "\<forall>r. listPayments Vendor (IntId 1) tie_store r \<longrightarrow> r = Json []" by auto
  then have e: "\<not> listPayments Vendor (IntId 1) tie_store (Json [first_payment])" by blast
  from listPayments_by_date_desc [of Vendor 1 tie_store] d
  have "listPayments Vendor (IntId 1) tie_store (Json [])" by blast
  with a c e show ?thesis by simp
qed

section \<open>Deleting a payee removes its entries\<close>

text \<open>
  C7. After an existing payee is deleted, the payee is gone, the ledger holds no entry
  of it, the entries of the other payees are as before, and every listing for the
  deleted id is the empty list.
\<close>

theorem deletePayee_cascades:
  assumes "total_paid k (tabs s) i \<noteq> None"
    and "deletePayee k (IntId i) s = (r, s')"
  shows "total_paid k (tabs s') i = None \<and>
         entries_of k (tabs s') i = [] \<and>
         (\<forall>j. j \<noteq> i \<longrightarrow> entries_of k (tabs s') j = entries_of k (tabs s) j) \<and>
         (\<forall>q. listPayments k (IntId i) s' q \<longrightarrow> q = Json [])"
proof -
  have del: "total_paid k (tabs s') i = None \<and>
         ledger k (tabs s') = filter (\<lambda>p. p_payee_id p \<noteq> Some i) (ledger k (tabs s))"
    using assms
    by (cases k) (auto simp: delete_worker_def delete_vendor_def send_def Let_def)
  then have none: "entries_of k (tabs s') i = []"
    by (simp add: entries_of_def where_payee_def)
  have other: "\<forall>j. j \<noteq> i \<longrightarrow> entries_of k (tabs s') j = entries_of k (tabs s) j"
  proof (intro allI impI)
    fix j :: int
    assume "j \<noteq> i"
    then have "filter (\<lambda>p. p_payee_id p = Some j) (filter (\<lambda>p. p_payee_id p \<noteq> Some i) (ledger k (tabs s)))
             = filter (\<lambda>p. p_payee_id p = Some j) (ledger k (tabs s))"
      by (auto intro: filter_cong)
    with del show "entries_of k (tabs s') j = entries_of k (tabs s) j"
      by (simp add: entries_of_def where_payee_def)
  qed
  from none have "\<forall>q. listPayments k (IntId i) s' q \<longrightarrow> q = Json []"
    by (auto simp: listPayments_Json order_by_payment_date_desc_def)
  with del none other show ?thesis by simp
qed

theorem deletePayee_cascades_witness:
  "total_paid Worker (tabs tie_store) 1 \<noteq> None \<and>
   entries_of Worker (tabs tie_store) 1 = [first_payment, second_payment] \<and>
   entries_of Worker (tabs (snd (deletePayee Worker (IntId 1) tie_store))) 1 = [] \<and>
   \<not> listPayments Worker (IntId 1) (snd (deletePayee Worker (IntId 1) tie_store))
        (Json [first_payment, second_payment])"
proof -
  have a: "total_paid Worker (tabs tie_store) 1 \<noteq> None" by (simp add: demo_defs)
  have b: "entries_of Worker (tabs tie_store) 1 = [first_payment, second_payment]"
    by (simp add: demo_defs entries_of_def where_payee_def)
  have c: "deletePayee Worker (IntId 1) tie_store
             = (fst (deletePayee Worker (IntId 1) tie_store),
                snd (deletePayee Worker (IntId 1) tie_store))" by simp
  from deletePayee_cascades [OF a c]
  have d: "entries_of Worker (tabs (snd (deletePayee Worker (IntId 1) tie_store))) 1 = []"
    and e: "\<forall>q. listPayments Worker (IntId 1) (snd (deletePayee Worker (IntId 1) tie_store)) q
              \<longrightarrow> q = Json []"
    by blast+
  have "Json [first_payment, second_payment] \<noteq> Json []" by simp
  with e have "\<not> listPayments Worker (IntId 1) (snd (deletePayee Worker (IntId 1) tie_store))
                 (Json [first_payment, second_payment])" by blast
  with a b d show ?thesis by blast
qed

section \<open>Ledger entries are never changed\<close>

lemma post_worker_payment_ledger:
  assumes "txn s = None"
  shows "txn (snd (post_worker_payment rid body now s)) = None \<and>
         vendor_payments (tabs (snd (post_worker_payment rid body now s))) = vendor_payments (tabs s) \<and>
         (worker_payments (tabs (snd (post_worker_payment rid body now s))) = worker_payments (tabs s) \<or>
          (\<exists>row. worker_payments (tabs (snd (post_worker_payment rid body now s)))
                   = worker_payments (tabs s) @ [row]))"
proof (cases "fst (post_worker_payment rid body now s)")
  case (Json row)
  then have "post_worker_payment rid body now s = (Json row, snd (post_worker_payment rid body now s))"
    by (metis prod.collapse)
  from post_worker_payment_Json [OF this] show ?thesis by auto
next
  case (Failure c e)
  then have "post_worker_payment rid body now s = (Failure c e, snd (post_worker_payment rid body now s))"
    by (metis prod.collapse)
  from post_worker_payment_Failure [OF assms this] show ?thesis by simp
next
  case Thrown
  then have "body = None"
    by (cases body) (auto simp: post_worker_payment_alone Let_def split: prod.splits sum.splits)
  then show ?thesis using assms by (simp add: post_payment_Thrown)
qed

lemma post_vendor_payment_ledger:
  assumes "txn s = None"
  shows "txn (snd (post_vendor_payment rid body now s)) = None \<and>
         worker_payments (tabs (snd (post_vendor_payment rid body now s))) = worker_payments (tabs s) \<and>
         (vendor_payments (tabs (snd (post_vendor_payment rid body now s))) = vendor_payments (tabs s) \<or>
          (\<exists>row. vendor_payments (tabs (snd (post_vendor_payment rid body now s)))
                   = vendor_payments (tabs s) @ [row]))"
proof (cases "fst (post_vendor_payment rid body now s)")
  case (Json row)
  then have "post_vendor_payment rid body now s = (Json row, snd (post_vendor_payment rid body now s))"
    by (metis prod.collapse)
  from post_vendor_payment_Json [OF this] show ?thesis by auto
next
  case (Failure c e)
  then have "post_vendor_payment rid body now s = (Failure c e, snd (post_vendor_payment rid body now s))"
    by (metis prod.collapse)
  from post_vendor_payment_Failure [OF assms this] show ?thesis by simp
next
  case Thrown
  then have "body = None"
    by (cases body) (auto simp: post_vendor_payment_alone Let_def split: prod.splits sum.splits)
  then show ?thesis using assms by (simp add: post_payment_Thrown)
qed

lemma delete_worker_ledger:
  "txn (snd (delete_worker rid s)) = txn s \<and>
   vendor_payments (tabs (snd (delete_worker rid s))) = vendor_payments (tabs s) \<and>
   (worker_payments (tabs (snd (delete_worker rid s))) = worker_payments (tabs s) \<or>
    (\<exists>i. rid = IntId i \<and> worker_payments (tabs (snd (delete_worker rid s)))
            = filter (\<lambda>p. p_payee_id p \<noteq> Some i) (worker_payments (tabs s))))"
  by (cases rid) (auto simp: delete_worker_def send_def Let_def split: option.splits)

lemma delete_vendor_ledger:
  "txn (snd (delete_vendor rid s)) = txn s \<and>
   worker_payments (tabs (snd (delete_vendor rid s))) = worker_payments (tabs s) \<and>
   (vendor_payments (tabs (snd (delete_vendor rid s))) = vendor_payments (tabs s) \<or>
    (\<exists>i. rid = IntId i \<and> vendor_payments (tabs (snd (delete_vendor rid s)))
            = filter (\<lambda>p. p_payee_id p \<noteq> Some i) (vendor_payments (tabs s))))"
  by (cases rid) (auto simp: delete_vendor_def send_def Let_def split: option.splits)

lemma snd_respond: "snd (respond q) = snd q"
  by (cases q) (auto simp: respond_def split: sum.splits)

lemma insert_row_ledger:
  assumes "\<And>f t. worker_payments (upd f t) = worker_payments t"
    and "\<And>f t. vendor_payments (upd f t) = vendor_payments t"
  shows "txn (snd (insert_row tb get upd bad cast s)) = txn s \<and>
         worker_payments (tabs (snd (insert_row tb get upd bad cast s))) = worker_payments (tabs s) \<and>
         vendor_payments (tabs (snd (insert_row tb get upd bad cast s))) = vendor_payments (tabs s)"
  using assms
  by (auto simp: insert_row_def send_def nextval_def Let_def split: sum.splits prod.splits)

lemma update_row_ledger:
  assumes "\<And>f t. worker_payments (upd f t) = worker_payments t"
    and "\<And>f t. vendor_payments (upd f t) = vendor_payments t"
  shows "txn (snd (update_row tb get upd bad rid cast s)) = txn s \<and>
         worker_payments (tabs (snd (update_row tb get upd bad rid cast s))) = worker_payments (tabs s) \<and>
         vendor_payments (tabs (snd (update_row tb get upd bad rid cast s))) = vendor_payments (tabs s)"
  using assms
  by (auto simp: update_row_def send_def Let_def split: sum.splits route_id.splits option.splits)

lemma delete_row_ledger:
  assumes "\<And>f t. worker_payments (upd f t) = worker_payments t"
    and "\<And>f t. vendor_payments (upd f t) = vendor_payments t"
  shows "txn (snd (delete_row tb upd msg rid s)) = txn s \<and>
         worker_payments (tabs (snd (delete_row tb upd msg rid s))) = worker_payments (tabs s) \<and>
         vendor_payments (tabs (snd (delete_row tb upd msg rid s))) = vendor_payments (tabs s)"
  using assms
  by (auto simp: delete_row_def send_def Let_def split: route_id.splits)

lemma send_ledger: "txn (send q s) = txn s \<and> tabs (send q s) = tabs s"
  by (simp add: send_def)

lemmas handler_defs =
  post_project_def put_project_def delete_project_def post_worker_def put_worker_def
  post_vendor_def put_vendor_def post_inventory_def put_inventory_def delete_inventory_def

text \<open>
  C8. Whatever the request, on a store with no transaction left open and with no other
  request in between, each payment table afterwards is the table before, or the table
  before with one entry appended by a request that records a payment of that kind, or
  the table before without the entries of a payee that the request deletes. No request
  leaves a transaction open.
\<close>

theorem ledger_only_grows_or_cascades:
  assumes "txn s = None"
  shows "txn (handle q now s) = None \<and>
         (\<forall>k. ledger k (tabs (handle q now s)) = ledger k (tabs s) \<or>
              (records_payment k q \<and>
               (\<exists>row. ledger k (tabs (handle q now s)) = ledger k (tabs s) @ [row])) \<or>
              (\<exists>i. deletes_payee k i q \<and>
                   ledger k (tabs (handle q now s))
                     = filter (\<lambda>p. p_payee_id p \<noteq> Some i) (ledger k (tabs s))))"
proof -
  have same: "txn s' = None \<and> worker_payments (tabs s') = worker_payments (tabs s) \<and>
              vendor_payments (tabs s') = vendor_payments (tabs s) \<Longrightarrow>
              txn s' = None \<and>
         (\<forall>k. ledger k (tabs s') = ledger k (tabs s) \<or>
              (records_payment k q \<and> (\<exists>row. ledger k (tabs s') = ledger k (tabs s) @ [row])) \<or>
              (\<exists>i. deletes_payee k i q \<and>
                   ledger k (tabs s') = filter (\<lambda>p. p_payee_id p \<noteq> Some i) (ledger k (tabs s))))"
    for s'
  proof -
    assume a: "txn s' = None \<and> worker_payments (tabs s') = worker_payments (tabs s) \<and>
              vendor_payments (tabs s') = vendor_payments (tabs s)"
    have "ledger k (tabs s') = ledger k (tabs s)" for k using a by (cases k) simp_all
    with a show ?thesis by simp
  qed
  show ?thesis
  proof (cases q)
    case (PostWorkerPayment rid body)
    from post_worker_payment_ledger [OF assms, of rid body now] PostWorkerPayment
    show ?thesis
      apply (simp add: records_payment_def deletes_payee_def)
      apply (intro allI)
      subgoal for k by (cases k) auto
      done
  next
    case (PostVendorPayment rid body)
    from post_vendor_payment_ledger [OF assms, of rid body now] PostVendorPayment
    show ?thesis
      apply (simp add: records_payment_def deletes_payee_def)
      apply (intro allI)
      subgoal for k by (cases k) auto
      done
  next
    case (DeleteWorker rid)
    from delete_worker_ledger [of rid s] DeleteWorker assms
    show ?thesis
      apply (simp add: records_payment_def deletes_payee_def)
      apply (intro allI)
      subgoal for k by (cases k) auto
      done
  next
    case (DeleteVendor rid)
    from delete_vendor_ledger [of rid s] DeleteVendor assms
    show ?thesis
      apply (simp add: records_payment_def deletes_payee_def)
      apply (intro allI)
      subgoal for k by (cases k) auto
      done
  qed (rule same, simp add: assms handler_defs snd_respond insert_row_ledger update_row_ledger
         delete_row_ledger send_ledger split: option.splits prod.splits)+
qed

theorem ledger_only_grows_or_cascades_witness:
  "txn tie_store = None \<and>
   txn (handle (DeleteWorker (IntId 1)) 9 tie_store) = None \<and>
   ledger Worker (tabs (handle (DeleteWorker (IntId 1)) 9 tie_store)) = [] \<and>
   ledger Worker
     (tabs (handle (PutWorker (IntId 1) (Some (Some ''Ada B'', None, Absent, None))) 9 tie_store))
     = [first_payment, second_payment]"
proof -
  have a: "txn tie_store = None" by (simp add: demo_defs)
  from ledger_only_grows_or_cascades [OF a, of "DeleteWorker (IntId 1)" 9]
  have b: "txn (handle (DeleteWorker (IntId 1)) 9 tie_store) = None" by simp
  have c: "ledger Worker (tabs (handle (DeleteWorker (IntId 1)) 9 tie_store)) = []"
    by (simp add: delete_worker_def send_def demo_defs)
  have d: "ledger Worker
             (tabs (handle (PutWorker (IntId 1) (Some (Some ''Ada B'', None, Absent, None))) 9
                tie_store)) = [first_payment, second_payment]"
    by (simp add: put_worker_def snd_respond update_row_ledger demo_defs)
  from a b c d show ?thesis by simp
qed

section \<open>The two payment paths are one\<close>

lemma renamed_rows:
  assumes "payee_part Worker tw = payee_part Vendor tv"
  shows "worker_payments tw = vendor_payments tv"
    and "(workers tw i = None) = (vendors tv i = None)"
    and "workers tw i = Some w \<Longrightarrow> vendors tv i = Some v \<Longrightarrow>
           w_total_paid w = v_total_paid v \<and> w_last_payment_date w = v_last_payment_date v"
proof -
  from assms show "worker_payments tw = vendor_payments tv" by (simp add: payee_part_def)
  from assms have "(case (total_paid Worker tw i, last_payment_date Worker tw i) of
                      (Some tp, Some d) \<Rightarrow> Some (tp, d) | _ \<Rightarrow> None)
                 = (case (total_paid Vendor tv i, last_payment_date Vendor tv i) of
                      (Some tp, Some d) \<Rightarrow> Some (tp, d) | _ \<Rightarrow> None)"
    by (simp add: payee_part_def fun_eq_iff)
  then show "(workers tw i = None) = (vendors tv i = None)"
    and "workers tw i = Some w \<Longrightarrow> vendors tv i = Some v \<Longrightarrow>
           w_total_paid w = v_total_paid v \<and> w_last_payment_date w = v_last_payment_date v"
    by (auto split: option.splits)
qed

lemma payee_part_append:
  assumes "payee_part Worker tw = payee_part Vendor tv"
  shows "payee_part Worker (tw\<lparr>worker_payments := worker_payments tw @ [row]\<rparr>)
       = payee_part Vendor (tv\<lparr>vendor_payments := vendor_payments tv @ [row]\<rparr>)"
  using assms by (simp add: payee_part_def)

lemma payee_part_paid:
  assumes "payee_part Worker tw = payee_part Vendor tv"
  shows "payee_part Worker (tw\<lparr>workers := (workers tw)(i \<mapsto> w\<lparr>w_total_paid := t, w_last_payment_date := d\<rparr>)\<rparr>)
       = payee_part Vendor (tv\<lparr>vendors := (vendors tv)(i \<mapsto> v\<lparr>v_total_paid := t, v_last_payment_date := d\<rparr>)\<rparr>)"
  using assms by (simp add: payee_part_def fun_eq_iff)

lemma renamed_begin: "renamed sw sv \<Longrightarrow> renamed (query_begin sw) (query_begin sv)"
  by (auto simp: renamed_def query_begin_def send_def Let_def split: option.splits)

lemma renamed_commit: "renamed sw sv \<Longrightarrow> renamed (query_commit sw) (query_commit sv)"
  by (auto simp: renamed_def query_commit_def send_def)

lemma renamed_rollback: "renamed sw sv \<Longrightarrow> renamed (query_rollback sw) (query_rollback sv)"
  by (auto simp: renamed_def query_rollback_def send_def Let_def split: option.splits)

lemma renamed_insert:
  assumes "renamed sw sv"
  shows "fst (insert_worker_payment rid amount pdate descr now sw)
           = fst (insert_vendor_payment rid amount pdate descr now sv) \<and>
         renamed (snd (insert_worker_payment rid amount pdate descr now sw))
                 (snd (insert_vendor_payment rid amount pdate descr now sv))"
proof -
  from assms have pp: "payee_part Worker (tabs sw) = payee_part Vendor (tabs sv)"
    and sq: "seqs sw WorkerPayments = seqs sv VendorPayments"
    and tx: "map_option (payee_part Worker) (txn sw) = map_option (payee_part Vendor) (txn sv)"
    and iss: "issued sv = map swap_stmt (issued sw)"
    by (simp_all add: renamed_def)
  note rows = renamed_rows [OF pp]
  note app = payee_part_append [OF pp]
  show ?thesis
  proof (cases rid)
    case NotAnInt
    with pp sq tx iss show ?thesis
      by (simp add: insert_worker_payment_def insert_vendor_payment_def renamed_def send_def Let_def)
  next
    case (IntId i)
    have "(workers (tabs sw) i = None) = (vendors (tabs sv) i = None)" by (rule rows(2))
    with IntId pp sq tx iss rows(1) app show ?thesis
      by (auto simp: insert_worker_payment_def insert_vendor_payment_def renamed_def send_def
            nextval_def Let_def split: sum.splits)
  qed
qed

lemma renamed_update:
  assumes "renamed sw sv"
  shows "fst (update_worker_paid amount pdate rid sw) = fst (update_vendor_paid amount pdate rid sv) \<and>
         renamed (snd (update_worker_paid amount pdate rid sw))
                 (snd (update_vendor_paid amount pdate rid sv))"
proof -
  from assms have pp: "payee_part Worker (tabs sw) = payee_part Vendor (tabs sv)"
    and sq: "seqs sw WorkerPayments = seqs sv VendorPayments"
    and tx: "map_option (payee_part Worker) (txn sw) = map_option (payee_part Vendor) (txn sv)"
    and iss: "issued sv = map swap_stmt (issued sw)"
    by (simp_all add: renamed_def)
  note rows = renamed_rows [OF pp]
  show ?thesis
  proof (cases rid)
    case NotAnInt
    with pp sq tx iss show ?thesis
      by (simp add: update_worker_paid_def update_vendor_paid_def renamed_def send_def Let_def)
  next
    case (IntId i)
    show ?thesis
    proof (cases "workers (tabs sw) i")
      case None
      with rows(2) [of i] have "vendors (tabs sv) i = None" by simp
      with None IntId pp sq tx iss show ?thesis
        by (simp add: update_worker_paid_def update_vendor_paid_def renamed_def send_def Let_def)
    next
      case (Some w)
      with rows(2) [of i] obtain v where v: "vendors (tabs sv) i = Some v" by auto
      from rows(3) [OF Some v] have tp: "w_total_paid w = v_total_paid v" by simp
      note paid = payee_part_paid [OF pp, where i = i and w = w and v = v]
      from Some v IntId pp sq tx iss tp paid show ?thesis
        by (auto simp: update_worker_paid_def update_vendor_paid_def renamed_def send_def Let_def
              split: sum.splits)
    qed
  qed
qed

lemma post_worker_payment_steps:
  "post_worker_payment rid (Some (amount, pdate, descr)) now s =
     (case fst (insert_worker_payment rid amount pdate descr now (query_begin s)) of
        Inl e \<Rightarrow> (Failure 500 e,
                  query_rollback (snd (insert_worker_payment rid amount pdate descr now (query_begin s))))
      | Inr row \<Rightarrow>
          (case fst (update_worker_paid amount pdate rid
                       (snd (insert_worker_payment rid amount pdate descr now (query_begin s)))) of
             Inl e \<Rightarrow> (Failure 500 e,
                       query_rollback (snd (update_worker_paid amount pdate rid
                         (snd (insert_worker_payment rid amount pdate descr now (query_begin s))))))
           | Inr n \<Rightarrow> (Json row,
                       query_commit (snd (update_worker_paid amount pdate rid
                         (snd (insert_worker_payment rid amount pdate descr now (query_begin s))))))))"
  by (simp add: post_worker_payment_alone Let_def split: prod.splits sum.splits)

lemma post_vendor_payment_steps:
  "post_vendor_payment rid (Some (amount, pdate, descr)) now s =
     (case fst (insert_vendor_payment rid amount pdate descr now (query_begin s)) of
        Inl e \<Rightarrow> (Failure 500 e,
                  query_rollback (snd (insert_vendor_payment rid amount pdate descr now (query_begin s))))
      | Inr row \<Rightarrow>
          (case fst (update_vendor_paid amount pdate rid
                       (snd (insert_vendor_payment rid amount pdate descr now (query_begin s)))) of
             Inl e \<Rightarrow> (Failure 500 e,
                       query_rollback (snd (update_vendor_paid amount pdate rid
                         (snd (insert_vendor_payment rid amount pdate descr now (query_begin s))))))
           | Inr n \<Rightarrow> (Json row,
                       query_commit (snd (update_vendor_paid amount pdate rid
                         (snd (insert_vendor_payment rid amount pdate descr now (query_begin s))))))))"
  by (simp add: post_vendor_payment_alone Let_def split: prod.splits sum.splits)

text \<open>
  C9. When the worker side of one store is the vendor side of another, the worker
  handler on the first and the vendor handler on the second, called with the same id,
  body and clock reading, give the same response, and afterwards the worker side of the
  first store is again the vendor side of the second: same aggregates, same ledger,
  same sequence value, same statements up to the table names.
\<close>

theorem worker_and_vendor_paths_agree:
  assumes "renamed sw sv"
  shows "fst (post_worker_payment rid body now sw) = fst (post_vendor_payment rid body now sv) \<and>
         renamed (snd (post_worker_payment rid body now sw))
                 (snd (post_vendor_payment rid body now sv))"
proof (cases body)
  case None
  with assms show ?thesis by (simp add: post_payment_Thrown)
next
  case (Some b)
  obtain amount pdate descr where b: "b = (amount, pdate, descr)" by (cases b) auto
  let ?iw = "insert_worker_payment rid amount pdate descr now (query_begin sw)"
  let ?iv = "insert_vendor_payment rid amount pdate descr now (query_begin sv)"
  from renamed_insert [OF renamed_begin [OF assms], of rid amount pdate descr now]
  have ins: "fst ?iw = fst ?iv" and ins': "renamed (snd ?iw) (snd ?iv)" by simp_all
  let ?uw = "update_worker_paid amount pdate rid (snd ?iw)"
  let ?uv = "update_vendor_paid amount pdate rid (snd ?iv)"
  from renamed_update [OF ins', of amount pdate rid]
  have upd: "fst ?uw = fst ?uv" and upd': "renamed (snd ?uw) (snd ?uv)" by simp_all
  show ?thesis
  proof (cases "fst ?iw")
    case (Inl e)
    with ins have "fst ?iv = Inl e" by simp
    with Inl renamed_rollback [OF ins'] show ?thesis
      by (simp add: Some b post_worker_payment_steps post_vendor_payment_steps)
  next
    case (Inr row)
    with ins have iv: "fst ?iv = Inr row" by simp
    show ?thesis
    proof (cases "fst ?uw")
      case (Inl e)
      with upd have "fst ?uv = Inl e" by simp
      with Inl Inr iv renamed_rollback [OF upd'] show ?thesis
        by (simp add: Some b post_worker_payment_steps post_vendor_payment_steps)
    next
      case (Inr n)
      with upd have "fst ?uv = Inr n" by simp
      with Inr \<open>fst ?iw = Inr row\<close> iv renamed_commit [OF upd'] show ?thesis
        by (simp add: Some b post_worker_payment_steps post_vendor_payment_steps)
    qed
  qed
qed

theorem worker_and_vendor_paths_agree_witness:
  "renamed demo_store mirror_store \<and>
   fst (post_worker_payment (IntId 1) (Some (Given 500, Given (2024, 2, 10), None)) 1 demo_store)
     = fst (post_vendor_payment (IntId 1) (Some (Given 500, Given (2024, 2, 10), None)) 1
              mirror_store) \<and>
   renamed
     (snd (post_worker_payment (IntId 1) (Some (Given 500, Given (2024, 2, 10), None)) 1 demo_store))
     (snd (post_vendor_payment (IntId 1) (Some (Given 500, Given (2024, 2, 10), None)) 1
             mirror_store))"
proof -
  have a: "renamed demo_store mirror_store"
    by (simp add: renamed_def payee_part_def demo_defs fun_eq_iff)
  from a worker_and_vendor_paths_agree [OF a] show ?thesis by simp
qed

section \<open>What a successful call leaves alone\<close>

text \<open>
  C10. A successful call for the payee \<open>i\<close> appends one entry, owned by \<open>i\<close>, to
  the ledger of its kind, and replaces the row of \<open>i\<close> by the same row with a new
  total and a new last payment date. Every other row of that payee table, both tables
  of the other kind, the entries already in the ledger, the projects and the inventory
  are unchanged.
\<close>

theorem recordPayment_frame:
  assumes "recordPayment k rid body now s = (Json row, s')"
  shows "\<exists>i. rid = IntId i \<and> p_payee_id row = Some i \<and>
           ledger k (tabs s') = ledger k (tabs s) @ [row] \<and>
           (case k of
              Worker \<Rightarrow>
                (\<exists>w t d. workers (tabs s) i = Some w \<and>
                   workers (tabs s') =
                     (workers (tabs s))(i \<mapsto> w\<lparr>w_total_paid := t, w_last_payment_date := d\<rparr>)) \<and>
                vendors (tabs s') = vendors (tabs s) \<and>
                vendor_payments (tabs s') = vendor_payments (tabs s)
            | Vendor \<Rightarrow>
                (\<exists>v t d. vendors (tabs s) i = Some v \<and>
                   vendors (tabs s') =
                     (vendors (tabs s))(i \<mapsto> v\<lparr>v_total_paid := t, v_last_payment_date := d\<rparr>)) \<and>
                workers (tabs s') = workers (tabs s) \<and>
                worker_payments (tabs s') = worker_payments (tabs s)) \<and>
           projects (tabs s') = projects (tabs s) \<and>
           inventory (tabs s') = inventory (tabs s)"
proof (cases k)
  case Worker
  with assms have "post_worker_payment rid body now s = (Json row, s')" by simp
  from post_worker_payment_Json [OF this] obtain i d w t where
    rid: "rid = IntId i" and row: "p_payee_id row = Some i"
    and w: "workers (tabs s) i = Some w"
    and t: "tabs s' = (tabs s)\<lparr>worker_payments := worker_payments (tabs s) @ [row],
              workers := (workers (tabs s))
                (i \<mapsto> w\<lparr>w_total_paid := Some t, w_last_payment_date := Some d\<rparr>)\<rparr>"
    by auto
  have "\<exists>w t d. workers (tabs s) i = Some w \<and>
          workers (tabs s') = (workers (tabs s))(i \<mapsto> w\<lparr>w_total_paid := t, w_last_payment_date := d\<rparr>)"
    using w t by (intro exI [of _ w] exI [of _ "Some t"] exI [of _ "Some d"]) simp
  with Worker rid row t show ?thesis by simp
next
  case Vendor
  with assms have "post_vendor_payment rid body now s = (Json row, s')" by simp
  from post_vendor_payment_Json [OF this] obtain i d v t where
    rid: "rid = IntId i" and row: "p_payee_id row = Some i"
    and v: "vendors (tabs s) i = Some v"
    and t: "tabs s' = (tabs s)\<lparr>vendor_payments := vendor_payments (tabs s) @ [row],
              vendors := (vendors (tabs s))
                (i \<mapsto> v\<lparr>v_total_paid := Some t, v_last_payment_date := Some d\<rparr>)\<rparr>"
    by auto
  have "\<exists>v t d. vendors (tabs s) i = Some v \<and>
          vendors (tabs s') = (vendors (tabs s))(i \<mapsto> v\<lparr>v_total_paid := t, v_last_payment_date := d\<rparr>)"
    using v t by (intro exI [of _ v] exI [of _ "Some t"] exI [of _ "Some d"]) simp
  with Vendor rid row t show ?thesis by simp
qed

text \<open>A payment to the vendor of \<open>demo_store\<close>: it succeeds and touches no worker.\<close>

theorem recordPayment_frame_witness:
  "fst (recordPayment Vendor (IntId 1) (Some (Given 500, Given (2024, 2, 10), Some ''advance'')) 1
          demo_store)
     = Json \<lparr>p_id = 1, p_payee_id = Some 1, p_amount = 50000, p_payment_date = (2024, 2, 10),
             p_description = Some ''advance'', p_created_at = 1\<rparr> \<and>
   ledger Vendor (tabs (snd (recordPayment Vendor (IntId 1)
                               (Some (Given 500, Given (2024, 2, 10), Some ''advance'')) 1 demo_store)))
     = [\<lparr>p_id = 1, p_payee_id = Some 1, p_amount = 50000, p_payment_date = (2024, 2, 10),
          p_description = Some ''advance'', p_created_at = 1\<rparr>] \<and>
   vendors (tabs (snd (recordPayment Vendor (IntId 1)
                         (Some (Given 500, Given (2024, 2, 10), Some ''advance'')) 1 demo_store))) 1
     = Some (cement\<lparr>v_total_paid := Some 50000, v_last_payment_date := Some (2024, 2, 10)\<rparr>) \<and>
   workers (tabs (snd (recordPayment Vendor (IntId 1)
                         (Some (Given 500, Given (2024, 2, 10), Some ''advance'')) 1 demo_store)))
     = workers (tabs demo_store) \<and>
   worker_payments (tabs (snd (recordPayment Vendor (IntId 1)
                         (Some (Given 500, Given (2024, 2, 10), Some ''advance'')) 1 demo_store)))
     = worker_payments (tabs demo_store) \<and>
   projects (tabs (snd (recordPayment Vendor (IntId 1)
                         (Some (Given 500, Given (2024, 2, 10), Some ''advance'')) 1 demo_store)))
     = projects (tabs demo_store) \<and>
   inventory (tabs (snd (recordPayment Vendor (IntId 1)
                         (Some (Given 500, Given (2024, 2, 10), Some ''advance'')) 1 demo_store)))
     = inventory (tabs demo_store)"
proof -
  let ?run = "recordPayment Vendor (IntId 1)
                (Some (Given 500, Given (2024, 2, 10), Some ''advance'')) 1 demo_store"
  let ?row = "\<lparr>p_id = 1, p_payee_id = Some 1, p_amount = 50000, p_payment_date = (2024, 2, 10),
                p_description = Some ''advance'', p_created_at = 1\<rparr>"
  have ans: "fst ?run = Json ?row" by (simp add: run_defs demo_defs)
  then have run: "?run = (Json ?row, snd ?run)" by (metis prod.collapse)
  have led: "ledger Vendor (tabs demo_store) = []" by (simp add: demo_defs)
  have row: "vendors (tabs (snd ?run)) 1
               = Some (cement\<lparr>v_total_paid := Some 50000, v_last_payment_date := Some (2024, 2, 10)\<rparr>)"
    by (simp add: run_defs demo_defs)
  from recordPayment_frame [OF run] led
  have "ledger Vendor (tabs (snd ?run)) = [?row] \<and>
        workers (tabs (snd ?run)) = workers (tabs demo_store) \<and>
        worker_payments (tabs (snd ?run)) = worker_payments (tabs demo_store) \<and>
        projects (tabs (snd ?run)) = projects (tabs demo_store) \<and>
        inventory (tabs (snd ?run)) = inventory (tabs demo_store)"
    by auto
  with ans row show ?thesis by simp
qed

end
